theory Spec2Isabelle
  imports Complex_Main
begin

section \<open>JavaScript values\<close>

text \<open>
  The dashboard is JavaScript. A Number is modelled as a real extended with the three
  special values of IEEE arithmetic; rounding to binary64, overflow and the sign of zero are
  not modelled. Every operator below follows the special-value table of the language
  (\<open>x / 0\<close>, \<open>NaN\<close> propagation, comparisons with \<open>NaN\<close> being false).
\<close>

datatype jsnum = NaN | PInf | NInf | Fin real

fun js_neg :: "jsnum \<Rightarrow> jsnum" where
  "js_neg NaN = NaN"
| "js_neg PInf = NInf"
| "js_neg NInf = PInf"
| "js_neg (Fin a) = Fin (- a)"

fun js_add :: "jsnum \<Rightarrow> jsnum \<Rightarrow> jsnum" where
  "js_add (Fin a) (Fin b) = Fin (a + b)"
| "js_add NaN _ = NaN"
| "js_add _ NaN = NaN"
| "js_add PInf NInf = NaN"
| "js_add NInf PInf = NaN"
| "js_add PInf _ = PInf"
| "js_add _ PInf = PInf"
| "js_add NInf _ = NInf"
| "js_add _ NInf = NInf"

definition js_sub :: "jsnum \<Rightarrow> jsnum \<Rightarrow> jsnum" where
  "js_sub a b = js_add a (js_neg b)"

definition inf_of_sign :: "bool \<Rightarrow> jsnum" where
  "inf_of_sign positive = (if positive then PInf else NInf)"

fun js_mul :: "jsnum \<Rightarrow> jsnum \<Rightarrow> jsnum" where
  "js_mul (Fin a) (Fin b) = Fin (a * b)"
| "js_mul NaN _ = NaN"
| "js_mul _ NaN = NaN"
| "js_mul (Fin a) PInf = (if a = 0 then NaN else inf_of_sign (0 < a))"
| "js_mul (Fin a) NInf = (if a = 0 then NaN else inf_of_sign (a < 0))"
| "js_mul PInf (Fin b) = (if b = 0 then NaN else inf_of_sign (0 < b))"
| "js_mul NInf (Fin b) = (if b = 0 then NaN else inf_of_sign (b < 0))"
| "js_mul PInf PInf = PInf"
| "js_mul PInf NInf = NInf"
| "js_mul NInf PInf = NInf"
| "js_mul NInf NInf = PInf"

fun js_div :: "jsnum \<Rightarrow> jsnum \<Rightarrow> jsnum" where
  "js_div (Fin a) (Fin b) =
     (if b = 0 then (if a = 0 then NaN else inf_of_sign (0 < a)) else Fin (a / b))"
| "js_div NaN _ = NaN"
| "js_div _ NaN = NaN"
| "js_div (Fin a) PInf = Fin 0"
| "js_div (Fin a) NInf = Fin 0"
| "js_div PInf (Fin b) = inf_of_sign (0 \<le> b)"
| "js_div NInf (Fin b) = inf_of_sign (b < 0)"
| "js_div PInf PInf = NaN"
| "js_div PInf NInf = NaN"
| "js_div NInf PInf = NaN"
| "js_div NInf NInf = NaN"

text \<open>\<open>a > b\<close> and \<open>a <= b\<close>: both are false as soon as one side is \<open>NaN\<close>.\<close>

fun js_gt :: "jsnum \<Rightarrow> jsnum \<Rightarrow> bool" where
  "js_gt (Fin a) (Fin b) = (b < a)"
| "js_gt NaN _ = False"
| "js_gt _ NaN = False"
| "js_gt _ PInf = False"
| "js_gt NInf _ = False"
| "js_gt PInf _ = True"
| "js_gt _ NInf = True"

fun js_le :: "jsnum \<Rightarrow> jsnum \<Rightarrow> bool" where
  "js_le (Fin a) (Fin b) = (a \<le> b)"
| "js_le NaN _ = False"
| "js_le _ NaN = False"
| "js_le _ PInf = True"
| "js_le NInf _ = True"
| "js_le PInf _ = False"
| "js_le _ NInf = False"

text \<open>
  \<open>Math.min(a, b)\<close>, \<open>Math.sin\<close>, \<open>Math.cos\<close>. The language leaves the precision of the
  last two to the implementation; here they are the exact real functions. This is an
  idealisation: it agrees with the program at 0 (the language fixes \<open>sin(+0) = +0\<close> and
  \<open>cos(+0) = 1\<close>) and on \<open>NaN\<close> and the infinities, and says nothing about the doubles the
  program computes elsewhere.
\<close>

fun Math_min :: "jsnum \<Rightarrow> jsnum \<Rightarrow> jsnum" where
  "Math_min NaN _ = NaN"
| "Math_min _ NaN = NaN"
| "Math_min a b = (if js_le a b then a else b)"

fun Math_sin :: "jsnum \<Rightarrow> jsnum" where
  "Math_sin (Fin a) = Fin (sin a)"
| "Math_sin _ = NaN"

fun Math_cos :: "jsnum \<Rightarrow> jsnum" where
  "Math_cos (Fin a) = Fin (cos a)"
| "Math_cos _ = NaN"

text \<open>
  The values a field of a JSON payload may hold where the dashboard expects a number: it is
  absent (reading it gives \<open>undefined\<close>), or \<open>null\<close>, a boolean, a number or a string.
\<close>

datatype jsval = Undefined | Null | Bool bool | Num jsnum | Str string

text \<open>
  The field \<open>sensor_readings\<close> is read as an array: it holds an array of such values, or one
  of them in place of the array.
\<close>

datatype jsarr = NotArray jsval | Array "jsval list"

subsection \<open>Conversion of a string to a number\<close>

text \<open>
  \<open>StringToNumber\<close> of the language on 8-bit characters: white space is trimmed, the empty
  string is 0, then a signed decimal literal (with fraction and exponent), \<open>Infinity\<close>, or an
  unsigned binary, octal or hexadecimal literal; anything else is \<open>NaN\<close>.
\<close>

definition is_space :: "char \<Rightarrow> bool" where
  "is_space c = (of_char c \<in> {9, 10, 11, 12, 13, 32, 160 :: nat})"

definition trim :: "string \<Rightarrow> string" where
  "trim s = rev (dropWhile is_space (rev (dropWhile is_space s)))"

definition digit_of :: "char \<Rightarrow> nat option" where
  "digit_of c =
     (let n = (of_char c :: nat) in
      if 48 \<le> n \<and> n \<le> 57 then Some (n - 48)
      else if 97 \<le> n \<and> n \<le> 102 then Some (n - 87)
      else if 65 \<le> n \<and> n \<le> 70 then Some (n - 55)
      else None)"

definition is_digit :: "nat \<Rightarrow> char \<Rightarrow> bool" where
  "is_digit base c = (case digit_of c of None \<Rightarrow> False | Some d \<Rightarrow> d < base)"

definition digits_value :: "nat \<Rightarrow> string \<Rightarrow> nat" where
  "digits_value base ds = foldl (\<lambda>acc c. acc * base + (case digit_of c of None \<Rightarrow> 0 | Some d \<Rightarrow> d)) 0 ds"

definition radix_literal :: "nat \<Rightarrow> string \<Rightarrow> jsnum" where
  "radix_literal base ds =
     (if ds \<noteq> [] \<and> list_all (is_digit base) ds then Fin (real (digits_value base ds)) else NaN)"

text \<open>The exponent part: empty, or \<open>e\<close>/\<open>E\<close>, an optional sign and at least one digit.\<close>

definition exponent_part :: "string \<Rightarrow> int option" where
  "exponent_part s =
     (case s of
        [] \<Rightarrow> Some 0
      | c # r \<Rightarrow>
          if c = CHR ''e'' \<or> c = CHR ''E'' then
            (let neg = (r \<noteq> [] \<and> hd r = CHR ''-'');
                 ds = (if r \<noteq> [] \<and> (hd r = CHR ''-'' \<or> hd r = CHR ''+'') then tl r else r)
             in if ds \<noteq> [] \<and> list_all (is_digit 10) ds
                then Some (if neg then - int (digits_value 10 ds) else int (digits_value 10 ds))
                else None)
          else None)"

definition unsigned_decimal :: "string \<Rightarrow> jsnum" where
  "unsigned_decimal s =
     (if s = ''Infinity'' then PInf
      else
        (let ip = takeWhile (is_digit 10) s;
             r1 = dropWhile (is_digit 10) s;
             dot = (r1 \<noteq> [] \<and> hd r1 = CHR ''.'');
             fp = (if dot then takeWhile (is_digit 10) (tl r1) else []);
             r2 = (if dot then dropWhile (is_digit 10) (tl r1) else r1)
         in if ip = [] \<and> fp = [] then NaN
            else
              (case exponent_part r2 of
                 None \<Rightarrow> NaN
               | Some e \<Rightarrow>
                   (let m = real (digits_value 10 ip)
                            + real (digits_value 10 fp) / 10 ^ length fp
                    in Fin (if 0 \<le> e then m * 10 ^ nat e else m / 10 ^ nat (- e))))))"

definition string_to_number :: "string \<Rightarrow> jsnum" where
  "string_to_number str =
     (let s = trim str in
      case s of
        [] \<Rightarrow> Fin 0
      | c # r \<Rightarrow>
          if c = CHR ''-'' then js_neg (unsigned_decimal r)
          else if c = CHR ''+'' then unsigned_decimal r
          else if c = CHR ''0'' \<and> r \<noteq> [] \<and> (hd r = CHR ''x'' \<or> hd r = CHR ''X'')
            then radix_literal 16 (tl r)
          else if c = CHR ''0'' \<and> r \<noteq> [] \<and> (hd r = CHR ''o'' \<or> hd r = CHR ''O'')
            then radix_literal 8 (tl r)
          else if c = CHR ''0'' \<and> r \<noteq> [] \<and> (hd r = CHR ''b'' \<or> hd r = CHR ''B'')
            then radix_literal 2 (tl r)
          else unsigned_decimal s)"

subsection \<open>Conversions and property reads\<close>

text \<open>\<open>ToNumber\<close>, applied by every arithmetic operator to its operands.\<close>

fun to_number :: "jsval \<Rightarrow> jsnum" where
  "to_number Undefined = NaN"
| "to_number Null = Fin 0"
| "to_number (Bool b) = Fin (if b then 1 else 0)"
| "to_number (Num n) = n"
| "to_number (Str s) = string_to_number s"

text \<open>\<open>ToBoolean\<close>, applied by \<open>if (v)\<close>.\<close>

fun to_boolean :: "jsval \<Rightarrow> bool" where
  "to_boolean Undefined = False"
| "to_boolean Null = False"
| "to_boolean (Bool b) = b"
| "to_boolean (Num n) = (n \<noteq> NaN \<and> n \<noteq> Fin 0)"
| "to_boolean (Str s) = (s \<noteq> [])"

fun truthy :: "jsarr \<Rightarrow> bool" where
  "truthy (NotArray v) = to_boolean v"
| "truthy (Array vs) = True"

text \<open>
  The read \<open>v[i]\<close>: \<open>None\<close> stands for the TypeError raised when \<open>v\<close> is \<open>undefined\<close>
  or \<open>null\<close>; an index out of range reads \<open>undefined\<close>; a string is indexed by character.
\<close>

fun js_index :: "jsarr \<Rightarrow> nat \<Rightarrow> jsval option" where
  "js_index (NotArray Undefined) i = None"
| "js_index (NotArray Null) i = None"
| "js_index (NotArray (Str s)) i = Some (if i < length s then Str [s ! i] else Undefined)"
| "js_index (NotArray v) i = Some Undefined"
| "js_index (Array vs) i = Some (if i < length vs then vs ! i else Undefined)"

text \<open>
  A call either returns or throws; in both cases the state it has reached is kept, since an
  exception does not undo the assignments made before it.
\<close>

datatype exn = TypeError | PlotlyError

datatype outcome = Returned | Thrown exn

definition and_then :: "outcome \<times> 's \<Rightarrow> ('s \<Rightarrow> outcome \<times> 's) \<Rightarrow> outcome \<times> 's" where
  "and_then r f = (case r of (Returned, s) \<Rightarrow> f s | (Thrown e, s) \<Rightarrow> (Thrown e, s))"

section \<open>The 3D scene: threejs-app.js\<close>

text \<open>
  One Snapshot, the object \<open>data.current_data\<close> of a \<open>simulation_data\<close> message. An absent
  field reads \<open>Undefined\<close>.
\<close>

record snapshot =
  time :: jsval
  total_irradiance :: jsval
  poa_glb :: jsval
  panel_tilt :: jsval
  panel_azimuth :: jsval
  sun_elevation :: jsval
  sun_azimuth :: jsval
  sensor_readings :: jsarr

type_synonym vec3 = "jsnum \<times> jsnum \<times> jsnum"

text \<open>
  Materials are objects on the heap, referred to by their index in \<open>materials\<close>: a mesh holds
  the material it was constructed with, not a copy. Only the materials that an update writes
  are kept (the sensors' and the cloud parts'); the panel's and the sun's are never touched
  after their creation.
\<close>

record material =
  mat_color :: vec3
  mat_opacity :: jsnum

record cloud =
  cloud_position :: vec3
  cloud_children :: "nat list"

record scene =
  panel_rotation_x :: jsnum
  panel_rotation_y :: jsnum
  sensors :: "nat list"
  materials :: "material list"
  sun_position :: vec3
  sunLight_position :: vec3
  clouds :: "cloud list"
  frames_rendered :: nat

definition cloud_x :: "cloud \<Rightarrow> jsnum" where
  "cloud_x c = fst (cloud_position c)"

definition sensor_color :: "scene \<Rightarrow> nat \<Rightarrow> vec3" where
  "sensor_color s i = mat_color (materials s ! (sensors s ! i))"

text \<open>The object before the constructor body runs: nothing created yet.\<close>

definition blank :: scene where
  "blank = \<lparr>panel_rotation_x = Fin 0, panel_rotation_y = Fin 0, sensors = [], materials = [],
            sun_position = (Fin 0, Fin 0, Fin 0), sunLight_position = (Fin 0, Fin 0, Fin 0),
            clouds = [], frames_rendered = 0\<rparr>"

definition initScene :: "scene \<Rightarrow> scene" where
  "initScene s = s\<lparr>sunLight_position := (Fin 10, Fin 10, Fin 10)\<rparr>"

text \<open>
  \<open>createPanel\<close>: one \<open>sensorMaterial\<close> (colour \<open>0xFF0000\<close>) is created before the loop, and
  each of the four sensor meshes is constructed with it.
\<close>

definition createPanel :: "scene \<Rightarrow> scene" where
  "createPanel s =
     (let sensorMaterial = length (materials s);
          s1 = s\<lparr>materials := materials s @ [\<lparr>mat_color = (Fin 1, Fin 0, Fin 0), mat_opacity = Fin 1\<rparr>],
                 panel_rotation_x := Fin 0, panel_rotation_y := Fin 0, sensors := []\<rparr>
      in fold (\<lambda>pos t. t\<lparr>sensors := sensors t @ [sensorMaterial]\<rparr>) [0, 1, 2, 3 :: nat] s1)"

definition createSun :: "scene \<Rightarrow> scene" where
  "createSun s = s\<lparr>sun_position := (Fin 0, Fin 0, Fin 0)\<rparr>"

text \<open>
  \<open>createClouds\<close>: \<open>rand k\<close> is the value of the \<open>k\<close>-th call of \<open>Math.random()\<close>. Each of the
  three clouds draws four numbers for each of its five parts (size and offset, which no update
  reads), then three for its own position; each part gets a material of its own.
\<close>

definition createCloud :: "(nat \<Rightarrow> real) \<Rightarrow> nat \<Rightarrow> scene \<Rightarrow> scene" where
  "createCloud rand i s =
     (let h = length (materials s);
          k = 23 * i + 20
      in s\<lparr>materials := materials s
                @ replicate 5 \<lparr>mat_color = (Fin 1, Fin 1, Fin 1), mat_opacity = Fin (7 / 10)\<rparr>,
            clouds := clouds s
                @ [\<lparr>cloud_position = (Fin ((rand k - 1 / 2) * 10),
                                       Fin (2 + rand (k + 1) * 2),
                                       Fin ((rand (k + 2) - 1 / 2) * 10)),
                    cloud_children = [h, h + 1, h + 2, h + 3, h + 4]\<rparr>]\<rparr>)"

definition createClouds :: "(nat \<Rightarrow> real) \<Rightarrow> scene \<Rightarrow> scene" where
  "createClouds rand s = fold (createCloud rand) [0, 1, 2] (s\<lparr>clouds := []\<rparr>)"

text \<open>
  \<open>THREE.MathUtils.degToRad\<close>: degrees times \<open>\<pi>/180\<close>. The library multiplies by the
  double \<open>Math.PI / 180\<close>; the exact factor here is the same idealisation.
\<close>

definition degToRad :: "jsnum \<Rightarrow> jsnum" where
  "degToRad degrees = js_mul degrees (Fin (pi / 180))"

definition updatePanelOrientation :: "jsval \<Rightarrow> jsval \<Rightarrow> scene \<Rightarrow> scene" where
  "updatePanelOrientation tilt azimuth s =
     s\<lparr>panel_rotation_x := degToRad (to_number tilt),
       panel_rotation_y := degToRad (js_sub (to_number azimuth) (Fin 180))\<rparr>"

definition updateSunPosition :: "jsval \<Rightarrow> jsval \<Rightarrow> scene \<Rightarrow> scene" where
  "updateSunPosition elevation azimuth s =
     (let distance = Fin 10;
          phi = degToRad (js_sub (Fin 90) (to_number elevation));
          theta = degToRad (to_number azimuth);
          s1 = s\<lparr>sun_position :=
                  (js_mul (js_mul distance (Math_sin phi)) (Math_cos theta),
                   js_mul distance (Math_cos phi),
                   js_mul (js_mul distance (Math_sin phi)) (Math_sin theta))\<rparr>
      in s1\<lparr>sunLight_position := sun_position s1\<rparr>)"

text \<open>
  \<open>updateSensorReadings\<close>: \<open>readings.forEach\<close> exists only on an array. For each entry the
  colour of the material of \<open>this.sensors[index]\<close> is set; beyond the last sensor
  \<open>this.sensors[index]\<close> is \<open>undefined\<close> and reading its material throws.
\<close>

definition set_color :: "nat \<Rightarrow> vec3 \<Rightarrow> scene \<Rightarrow> scene" where
  "set_color m c s = s\<lparr>materials := (materials s)[m := (materials s ! m)\<lparr>mat_color := c\<rparr>]\<rparr>"

fun forEach_reading :: "jsval list \<Rightarrow> nat \<Rightarrow> scene \<Rightarrow> outcome \<times> scene" where
  "forEach_reading [] index s = (Returned, s)"
| "forEach_reading (v # rest) index s =
     (let intensity = Math_min (js_div (to_number v) (Fin 1000)) (Fin 1)
      in if index < length (sensors s)
         then forEach_reading rest (index + 1)
                (set_color (sensors s ! index) (js_sub (Fin 1) intensity, intensity, Fin 0) s)
         else (Thrown TypeError, s))"

fun updateSensorReadings :: "jsarr \<Rightarrow> scene \<Rightarrow> outcome \<times> scene" where
  "updateSensorReadings (Array vs) s = forEach_reading vs 0 s"
| "updateSensorReadings (NotArray v) s = (Thrown TypeError, s)"

text \<open>
  \<open>updateClouds(cloudData)\<close>: \<open>cloudData\<close> is absent (\<open>None\<close>) or the list of the \<open>opacity\<close>
  fields of its entries.
\<close>

definition set_opacity :: "jsnum \<Rightarrow> nat \<Rightarrow> material list \<Rightarrow> material list" where
  "set_opacity opacity m ms = ms[m := (ms ! m)\<lparr>mat_opacity := opacity\<rparr>]"

definition move_cloud :: "cloud \<Rightarrow> cloud" where
  "move_cloud c =
     (case cloud_position c of
        (x, y, z) \<Rightarrow>
          (let x1 = js_add x (Fin (1 / 100));
               x2 = (if js_gt x1 (Fin 5) then Fin (- 5) else x1)
           in c\<lparr>cloud_position := (x2, y, z)\<rparr>))"

fun forEach_cloud :: "jsval list option \<Rightarrow> cloud list \<Rightarrow> nat \<Rightarrow> material list
    \<Rightarrow> cloud list \<times> material list" where
  "forEach_cloud cloudData [] index ms = ([], ms)"
| "forEach_cloud cloudData (c # rest) index ms =
     (let c1 = move_cloud c;
          ms1 = (case cloudData of
                   None \<Rightarrow> ms
                 | Some cd \<Rightarrow>
                     if index < length cd
                     then (let opacity = js_add (Fin (3 / 10))
                                           (js_mul (to_number (cd ! index)) (Fin (7 / 10)))
                           in fold (set_opacity opacity) (cloud_children c1) ms)
                     else ms)
      in case forEach_cloud cloudData rest (index + 1) ms1 of
           (cs, ms2) \<Rightarrow> (c1 # cs, ms2))"

definition updateClouds :: "jsval list option \<Rightarrow> scene \<Rightarrow> scene" where
  "updateClouds cloudData s =
     (case forEach_cloud cloudData (clouds s) 0 (materials s) of
        (cs, ms) \<Rightarrow> s\<lparr>clouds := cs, materials := ms\<rparr>)"

text \<open>
  \<open>animate\<close>: asks for the next frame and renders the scene. Rendering writes nothing of the
  scene state above; the number of frames drawn is kept to tell the calls apart.
\<close>

definition animate :: "scene \<Rightarrow> scene" where
  "animate s = s\<lparr>frames_rendered := frames_rendered s + 1\<rparr>"

definition new_PVVisualization :: "(nat \<Rightarrow> real) \<Rightarrow> scene" where
  "new_PVVisualization rand =
     animate (createClouds rand (createSun (createPanel (initScene blank))))"

text \<open>\<open>updateFromData\<close>: the three guarded updates in the order of the source, then the clouds.\<close>

definition updateFromData :: "snapshot \<Rightarrow> scene \<Rightarrow> outcome \<times> scene" where
  "updateFromData data s =
     (let s1 = (if panel_tilt data \<noteq> Undefined \<and> panel_azimuth data \<noteq> Undefined
                then updatePanelOrientation (panel_tilt data) (panel_azimuth data) s else s);
          s2 = (if sun_elevation data \<noteq> Undefined \<and> sun_azimuth data \<noteq> Undefined
                then updateSunPosition (sun_elevation data) (sun_azimuth data) s1 else s1)
      in and_then (if truthy (sensor_readings data)
                   then updateSensorReadings (sensor_readings data) s2 else (Returned, s2))
           (\<lambda>s3. (Returned, updateClouds None s3)))"

section \<open>The charts and the page: the dashboard script\<close>

text \<open>
  A plotted chart as Plotly keeps it on its graph element: the traces with their data arrays,
  and the layout. \<open>plots\<close> maps the id of a graph element to its chart.
\<close>

record trace =
  tr_name :: string
  tr_dash :: "string option"
  tr_x :: "jsval list"
  tr_y :: "jsval list"

record chart =
  traces :: "trace list"
  title :: string
  xaxis_title :: string
  yaxis_title :: string

type_synonym plots = "string \<rightharpoonup> chart"

definition series_x :: "plots \<Rightarrow> string \<Rightarrow> nat \<Rightarrow> jsval list" where
  "series_x p gd k =
     (case p gd of None \<Rightarrow> [] | Some c \<Rightarrow> if k < length (traces c) then tr_x (traces c ! k) else [])"

definition series_y :: "plots \<Rightarrow> string \<Rightarrow> nat \<Rightarrow> jsval list" where
  "series_y p gd k =
     (case p gd of None \<Rightarrow> [] | Some c \<Rightarrow> if k < length (traces c) then tr_y (traces c ! k) else [])"

subsection \<open>The calls of the Plotly library\<close>

text \<open>
  Plotly is a library that the page loads; the three calls the script makes are written
  here as the library documents them.

  \<open>Plotly.newPlot(id, data, layout)\<close> draws the chart on the element and returns a Promise;
  a Promise has no property \<open>data\<close>.
\<close>

datatype handle = Promise

fun handle_data :: "handle \<Rightarrow> trace list option" where
  "handle_data Promise = None"

definition empty_trace :: "string \<Rightarrow> string option \<Rightarrow> trace" where
  "empty_trace n d = \<lparr>tr_name = n, tr_dash = d, tr_x = [], tr_y = []\<rparr>"

definition newPlot :: "string \<Rightarrow> trace list \<Rightarrow> string \<times> string \<times> string \<Rightarrow> plots \<Rightarrow> handle \<times> plots" where
  "newPlot gd ts layout p =
     (case layout of
        (t, xt, yt) \<Rightarrow>
          (Promise, p(gd \<mapsto> \<lparr>traces = ts, title = t, xaxis_title = xt, yaxis_title = yt\<rparr>)))"

text \<open>
  \<open>Plotly.extendTraces(id, {x: xs, y: ys}, indices)\<close> appends \<open>xs[k]\<close> and \<open>ys[k]\<close> to the
  data arrays of trace \<open>indices[k]\<close>. It throws when the element holds no plot, when an index
  is out of range or repeated, or when \<open>xs\<close> or \<open>ys\<close> has not one entry for each index.
\<close>

fun extend_at :: "trace list \<Rightarrow> (nat \<times> jsval list \<times> jsval list) list \<Rightarrow> trace list" where
  "extend_at ts [] = ts"
| "extend_at ts ((i, xs, ys) # rest) =
     extend_at (ts[i := (ts ! i)\<lparr>tr_x := tr_x (ts ! i) @ xs, tr_y := tr_y (ts ! i) @ ys\<rparr>]) rest"

definition extendTraces :: "string \<Rightarrow> jsval list list \<Rightarrow> jsval list list \<Rightarrow> nat list \<Rightarrow> plots
    \<Rightarrow> outcome \<times> plots" where
  "extendTraces gd xs ys indices p =
     (case p gd of
        None \<Rightarrow> (Thrown PlotlyError, p)
      | Some c \<Rightarrow>
          if list_all (\<lambda>i. i < length (traces c)) indices \<and> distinct indices
             \<and> length xs = length indices \<and> length ys = length indices
          then (Returned, p(gd \<mapsto> c\<lparr>traces := extend_at (traces c) (zip indices (zip xs ys))\<rparr>))
          else (Thrown PlotlyError, p))"

text \<open>\<open>Plotly.deleteTraces(id, indices)\<close> removes the traces at the indices.\<close>

definition deleteTraces :: "string \<Rightarrow> nat list \<Rightarrow> plots \<Rightarrow> outcome \<times> plots" where
  "deleteTraces gd indices p =
     (case p gd of
        None \<Rightarrow> (Thrown PlotlyError, p)
      | Some c \<Rightarrow>
          if list_all (\<lambda>i. i < length (traces c)) indices \<and> distinct indices
          then (Returned, p(gd \<mapsto> c\<lparr>traces :=
                  map snd (filter (\<lambda>(i, t). i \<notin> set indices) (enumerate 0 (traces c)))\<rparr>))
          else (Thrown PlotlyError, p))"

subsection \<open>The page state\<close>

text \<open>
  The globals of the script (\<open>charts\<close>, \<open>simulationData\<close>, \<open>pvVisualization\<close>), the plots, and
  the elements the script writes. A text built from a number is kept as that number: the
  status line, the value put into the width of the progress bar, the number shown on it
  with one decimal, and the summary as the list of names and numbers shown with two
  decimals; \<open>None\<close> is an element the script has not written yet.
\<close>

record page =
  charts :: "(string \<times> handle) list"
  simulationData :: "snapshot list"
  pvVisualization :: "scene option"
  plots :: plots
  status :: "string option"
  progress_width :: "jsval option"
  progress_text :: "jsnum option"
  summary_html :: "(string \<times> jsnum) list option"

text \<open>A \<open>simulation_data\<close> message: \<open>{progress, summary_stats?, current_data?}\<close>.\<close>

record message =
  progress :: jsval
  summary_stats :: "(string \<times> jsval) list option"
  current_data :: "snapshot option"

definition on_plots :: "(plots \<Rightarrow> outcome \<times> plots) \<Rightarrow> page \<Rightarrow> outcome \<times> page" where
  "on_plots f st = (case f (plots st) of (out, p) \<Rightarrow> (out, st\<lparr>plots := p\<rparr>))"

definition on_scene :: "(scene \<Rightarrow> outcome \<times> scene) \<Rightarrow> page \<Rightarrow> outcome \<times> page" where
  "on_scene f st =
     (case pvVisualization st of
        None \<Rightarrow> (Returned, st)
      | Some sc \<Rightarrow> (case f sc of (out, sc1) \<Rightarrow> (out, st\<lparr>pvVisualization := Some sc1\<rparr>)))"

text \<open>
  \<open>initCharts\<close>: each \<open>charts.key = Plotly.newPlot(...)\<close> plots a chart and stores what the
  call returns under the key. (The unit of the irradiance axes, watt per square metre, is
  written \<open>W/m2\<close> here.)
\<close>

definition add_chart :: "string \<Rightarrow> handle \<times> plots \<Rightarrow> page \<Rightarrow> page" where
  "add_chart key r st = st\<lparr>charts := charts st @ [(key, fst r)], plots := snd r\<rparr>"

definition initCharts :: "page \<Rightarrow> page" where
  "initCharts st =
     (let st1 = add_chart ''irradiance''
                  (newPlot ''irradiance-chart''
                     [empty_trace ''Total Irradiance'' None,
                      empty_trace ''Theoretical Maximum'' (Some ''dot'')]
                     (''Irradiance Over Time'', ''Time (min)'', ''Irradiance (W/m2)'') (plots st)) st;
          st2 = add_chart ''angles''
                  (newPlot ''angles-chart''
                     [empty_trace ''Panel Tilt'' None,
                      empty_trace ''Panel Azimuth'' None,
                      empty_trace ''Sun Elevation'' (Some ''dot'')]
                     (''Angles Over Time'', ''Time (min)'', ''Angle (deg)'') (plots st1)) st1;
          st3 = add_chart ''sensors''
                  (newPlot ''sensors-chart''
                     [empty_trace ''Sensor 1'' None, empty_trace ''Sensor 2'' None,
                      empty_trace ''Sensor 3'' None, empty_trace ''Sensor 4'' None]
                     (''Sensor Readings Over Time'', ''Time (min)'', ''Irradiance (W/m2)'') (plots st2)) st2
      in add_chart ''efficiency''
           (newPlot ''efficiency-chart''
              [empty_trace ''Efficiency'' None]
              (''System Efficiency Over Time'', ''Time (min)'', ''Efficiency (%)'') (plots st3)) st3)"

text \<open>
  \<open>updateCharts\<close>: four calls of \<open>extendTraces\<close>. The arguments of the third read
  \<open>data.sensor_readings[0..3]\<close>, which throws when \<open>sensor_readings\<close> is \<open>undefined\<close> or
  \<open>null\<close>, after the first two charts have been extended.
\<close>

definition updateCharts :: "snapshot \<Rightarrow> plots \<Rightarrow> outcome \<times> plots" where
  "updateCharts data p =
     (let timeMin = Num (js_div (to_number (time data)) (Fin 60)) in
      and_then (extendTraces ''irradiance-chart''
                  [[timeMin], [timeMin]]
                  [[total_irradiance data], [poa_glb data]] [0, 1] p)
        (\<lambda>p1.
      and_then (extendTraces ''angles-chart''
                  [[timeMin], [timeMin], [timeMin]]
                  [[panel_tilt data], [panel_azimuth data], [sun_elevation data]] [0, 1, 2] p1)
        (\<lambda>p2.
      case those (map (js_index (sensor_readings data)) [0, 1, 2, 3]) of
        None \<Rightarrow> (Thrown TypeError, p2)
      | Some rs \<Rightarrow>
      and_then (extendTraces ''sensors-chart''
                  [[timeMin], [timeMin], [timeMin], [timeMin]]
                  (map (\<lambda>r. [r]) rs) [0, 1, 2, 3] p2)
        (\<lambda>p3.
      let efficiency = js_div (js_mul (Fin 100) (to_number (total_irradiance data)))
                         (to_number (poa_glb data))
      in extendTraces ''efficiency-chart'' [[timeMin]] [[Num efficiency]] [0] p3))))"

definition updateStatus :: "string \<Rightarrow> page \<Rightarrow> page" where
  "updateStatus message st = st\<lparr>status := Some message\<rparr>"

text \<open>\<open>updateProgress\<close>: the width is written first; \<open>percent.toFixed\<close> exists on a number only.\<close>

definition updateProgress :: "jsval \<Rightarrow> page \<Rightarrow> outcome \<times> page" where
  "updateProgress percent st =
     (let st1 = st\<lparr>progress_width := Some percent\<rparr> in
      case percent of
        Num n \<Rightarrow> (Returned, st1\<lparr>progress_text := Some n\<rparr>)
      | _ \<Rightarrow> (Thrown TypeError, st1))"

text \<open>\<open>updateSummaryStats\<close>: the text is built in a local and written after the loop.\<close>

fun stats_html :: "(string \<times> jsval) list \<Rightarrow> (string \<times> jsnum) list \<Rightarrow> (string \<times> jsnum) list option" where
  "stats_html [] html = Some html"
| "stats_html ((key, Num n) # rest) html = stats_html rest (html @ [(key, n)])"
| "stats_html ((key, v) # rest) html = None"

definition updateSummaryStats :: "(string \<times> jsval) list \<Rightarrow> page \<Rightarrow> outcome \<times> page" where
  "updateSummaryStats stats st =
     (case stats_html stats [] of
        None \<Rightarrow> (Thrown TypeError, st)
      | Some html \<Rightarrow> (Returned, st\<lparr>summary_html := Some html\<rparr>))"

definition handleSimulationData :: "message \<Rightarrow> page \<Rightarrow> outcome \<times> page" where
  "handleSimulationData data st =
     and_then (updateProgress (progress data) st)
       (\<lambda>st1.
     and_then (case summary_stats data of
                 None \<Rightarrow> (Returned, st1)
               | Some stats \<Rightarrow> updateSummaryStats stats st1)
       (\<lambda>st2.
     case current_data data of
       None \<Rightarrow> (Returned, st2)
     | Some cd \<Rightarrow>
         (let st3 = st2\<lparr>simulationData := simulationData st2 @ [cd]\<rparr> in
          and_then (on_scene (updateFromData cd) st3)
            (\<lambda>st4. on_plots (updateCharts cd) st4))))"

text \<open>
  \<open>resetCharts\<close>: for each key of \<open>charts\<close>, reads \<open>charts[chartId].data.length\<close> and deletes
  that many traces of the element named by the key.
\<close>

fun resetCharts_loop :: "(string \<times> handle) list \<Rightarrow> plots \<Rightarrow> outcome \<times> plots" where
  "resetCharts_loop [] p = (Returned, p)"
| "resetCharts_loop ((chartId, h) # rest) p =
     (case handle_data h of
        None \<Rightarrow> (Thrown TypeError, p)
      | Some d \<Rightarrow> and_then (deleteTraces chartId [0 ..< length d] p) (resetCharts_loop rest))"

definition resetCharts :: "page \<Rightarrow> outcome \<times> page" where
  "resetCharts st = on_plots (resetCharts_loop (charts st)) st"

definition resetSimulation :: "page \<Rightarrow> outcome \<times> page" where
  "resetSimulation st =
     and_then (resetCharts (st\<lparr>simulationData := []\<rparr>))
       (\<lambda>st1. and_then (updateProgress (Num (Fin 0)) (updateStatus ''Simulation reset'' st1))
                 (updateSummaryStats []))"

text \<open>
  The page before and after the load handlers of the two scripts: the scene is constructed
  and the four charts are plotted.
\<close>

definition fresh :: "(nat \<Rightarrow> real) \<Rightarrow> page" where
  "fresh rand =
     \<lparr>charts = [], simulationData = [], pvVisualization = Some (new_PVVisualization rand),
      plots = Map.empty, status = None, progress_width = None, progress_text = None,
      summary_html = None\<rparr>"

definition loaded :: "(nat \<Rightarrow> real) \<Rightarrow> page" where
  "loaded rand = initCharts (fresh rand)"

text \<open>
  The socket delivers the messages one after the other; an exception thrown by the handler
  ends that call only, and the next message is handled on the state it left.
\<close>

definition handle_all :: "message list \<Rightarrow> page \<Rightarrow> page" where
  "handle_all ms st = fold (\<lambda>m st1. snd (handleSimulationData m st1)) ms st"

subsection \<open>Conditions on the state and on a message\<close>

text \<open>
  \<open>charts_ready\<close>: the four graph elements hold plots with at least the traces that
  \<open>updateCharts\<close> extends, as after \<open>initCharts\<close>. \<open>chart_series\<close> lists the ten series.
  \<open>widgets_ok\<close>: the progress and the summary values of a message are numbers, so that the
  two widget updates at the head of the handler return.
\<close>

definition has_traces :: "plots \<Rightarrow> string \<Rightarrow> nat \<Rightarrow> bool" where
  "has_traces p gd n = (case p gd of None \<Rightarrow> False | Some c \<Rightarrow> n \<le> length (traces c))"

definition charts_ready :: "plots \<Rightarrow> bool" where
  "charts_ready p = (has_traces p ''irradiance-chart'' 2 \<and> has_traces p ''angles-chart'' 3
     \<and> has_traces p ''sensors-chart'' 4 \<and> has_traces p ''efficiency-chart'' 1)"

definition chart_series :: "(string \<times> nat) list" where
  "chart_series = [(''irradiance-chart'', 0), (''irradiance-chart'', 1),
                   (''angles-chart'', 0), (''angles-chart'', 1), (''angles-chart'', 2),
                   (''sensors-chart'', 0), (''sensors-chart'', 1), (''sensors-chart'', 2),
                   (''sensors-chart'', 3), (''efficiency-chart'', 0)]"

fun is_number :: "jsval \<Rightarrow> bool" where
  "is_number (Num n) = True"
| "is_number v = False"

definition widgets_ok :: "message \<Rightarrow> bool" where
  "widgets_ok m =
     (is_number (progress m)
      \<and> (case summary_stats m of None \<Rightarrow> True | Some stats \<Rightarrow> list_all (\<lambda>(key, v). is_number v) stats))"

section \<open>Concrete inputs\<close>

text \<open>
  A page on which every call of \<open>Math.random()\<close> gave one half, a scene on which every call
  gave 0.9995 (its clouds start at x = 4.995, one step from the wrap), a complete Snapshot,
  and the variants of it that the properties below are evaluated on.
\<close>

definition rand0 :: "nat \<Rightarrow> real" where
  "rand0 k = 1 / 2"



definition scene0 :: scene where
  "scene0 = new_PVVisualization rand0"

definition page0 :: page where
  "page0 = loaded rand0"

definition snap0 :: snapshot where
  "snap0 = \<lparr>time = Num (Fin 60), total_irradiance = Num (Fin 500), poa_glb = Num (Fin 1000),
            panel_tilt = Num (Fin 30), panel_azimuth = Num (Fin 90),
            sun_elevation = Num (Fin 90), sun_azimuth = Num (Fin 0),
            sensor_readings = Array [Num (Fin 0), Num (Fin 500), Num (Fin 1000), Num (Fin 1500)]\<rparr>"

definition snap_poa_zero :: snapshot where
  "snap_poa_zero = snap0\<lparr>poa_glb := Num (Fin 0)\<rparr>"

definition snap_no_poa :: snapshot where
  "snap_no_poa = snap0\<lparr>poa_glb := Undefined\<rparr>"

definition snap_no_tilt :: snapshot where
  "snap_no_tilt = snap0\<lparr>panel_tilt := Undefined\<rparr>"

definition snap_abc :: snapshot where
  "snap_abc = snap0\<lparr>time := Str ''abc''\<rparr>"

definition msg0 :: message where
  "msg0 = \<lparr>progress = Num (Fin 50), summary_stats = None, current_data = Some snap0\<rparr>"

definition msg_abc :: message where
  "msg_abc = \<lparr>progress = Num (Fin 50), summary_stats = None, current_data = Some snap_abc\<rparr>"

text \<open>The page after the first message.\<close>

definition page1 :: page where
  "page1 = snd (handleSimulationData msg0 page0)"

definition snap_time_only :: snapshot where
  "snap_time_only = \<lparr>time = Num (Fin 60), total_irradiance = Undefined, poa_glb = Undefined,
            panel_tilt = Undefined, panel_azimuth = Undefined,
            sun_elevation = Undefined, sun_azimuth = Undefined,
            sensor_readings = NotArray Undefined\<rparr>"


section \<open>Properties of the scene\<close>

lemma scene0_value:
  "scene0 = \<lparr>panel_rotation_x = Fin 0, panel_rotation_y = Fin 0, sensors = [0, 0, 0, 0],
     materials = \<lparr>mat_color = (Fin 1, Fin 0, Fin 0), mat_opacity = Fin 1\<rparr>
                 # replicate 15 \<lparr>mat_color = (Fin 1, Fin 1, Fin 1), mat_opacity = Fin (7 / 10)\<rparr>,
     sun_position = (Fin 0, Fin 0, Fin 0), sunLight_position = (Fin 10, Fin 10, Fin 10),
     clouds = [\<lparr>cloud_position = (Fin 0, Fin 3, Fin 0), cloud_children = [1, 2, 3, 4, 5]\<rparr>,
               \<lparr>cloud_position = (Fin 0, Fin 3, Fin 0), cloud_children = [6, 7, 8, 9, 10]\<rparr>,
               \<lparr>cloud_position = (Fin 0, Fin 3, Fin 0), cloud_children = [11, 12, 13, 14, 15]\<rparr>],
     frames_rendered = 1\<rparr>"
  by (simp add: scene0_def new_PVVisualization_def animate_def createClouds_def createCloud_def
      createSun_def createPanel_def initScene_def blank_def rand0_def Let_def numeral_eq_Suc)


lemma forEach_cloud_fst: "fst (forEach_cloud cd cs i ms) = map move_cloud cs"
  by (induction cs arbitrary: i ms) (simp_all add: Let_def split_beta)

lemma clouds_updateClouds: "clouds (updateClouds cd s) = map move_cloud (clouds s)"
  using forEach_cloud_fst [of cd "clouds s" 0 "materials s"]
  by (simp add: updateClouds_def split_beta)

lemma cloud_x_move:
  "cloud_x (move_cloud c) =
     (if js_gt (js_add (cloud_x c) (Fin (1 / 100))) (Fin 5) then Fin (- 5)
      else js_add (cloud_x c) (Fin (1 / 100)))"
  by (simp add: move_cloud_def cloud_x_def Let_def split: prod.split)

lemma drift_le_5:
  "js_le x (Fin 5) \<Longrightarrow>
   js_le (if js_gt (js_add x (Fin (1 / 100))) (Fin 5) then Fin (- 5) else js_add x (Fin (1 / 100))) (Fin 5)"
  by (cases x) auto

text \<open>
  C10. Each call of \<open>updateClouds\<close> adds 0.01 to the x-coordinate of every cloud and puts a
  coordinate that then exceeds 5 back to -5; when every cloud starts at an x of at most 5,
  every cloud is at an x of at most 5 after the call.
\<close>

theorem updateClouds_x_at_most_5:
  assumes "\<forall>c \<in> set (clouds s). js_le (cloud_x c) (Fin 5)"
  shows "map cloud_x (clouds (updateClouds cloudData s)) =
           map (\<lambda>c. if js_gt (js_add (cloud_x c) (Fin (1 / 100))) (Fin 5) then Fin (- 5)
                     else js_add (cloud_x c) (Fin (1 / 100))) (clouds s)
         \<and> (\<forall>c \<in> set (clouds (updateClouds cloudData s)). js_le (cloud_x c) (Fin 5))"
proof -
  have "js_le (cloud_x (move_cloud c)) (Fin 5)" if "c \<in> set (clouds s)" for c
    using assms that drift_le_5 [of "cloud_x c"] by (simp add: cloud_x_move)
  then show ?thesis
    by (simp add: clouds_updateClouds cloud_x_move)
qed

theorem updateClouds_x_at_most_5_witness:
  "list_all (\<lambda>c. js_le (cloud_x c) (Fin 5)) (clouds scene0)
   \<and> map cloud_x (clouds scene0) = [Fin 0, Fin 0, Fin 0]
   \<and> map cloud_x (clouds (updateClouds None scene0)) = [Fin (1 / 100), Fin (1 / 100), Fin (1 / 100)]
   \<and> list_all (\<lambda>c. js_le (cloud_x c) (Fin 5)) (clouds (updateClouds None scene0))"
proof -
  have h: "\<forall>c \<in> set (clouds scene0). js_le (cloud_x c) (Fin 5)"
    by (simp add: scene0_value cloud_x_def)
  show ?thesis
    using h updateClouds_x_at_most_5 [OF h, of None]
    by (simp add: scene0_value cloud_x_def list_all_iff)
qed

lemma frame_forEach_reading:
  "panel_rotation_x (snd (forEach_reading vs i s)) = panel_rotation_x s
   \<and> panel_rotation_y (snd (forEach_reading vs i s)) = panel_rotation_y s
   \<and> sun_position (snd (forEach_reading vs i s)) = sun_position s
   \<and> sunLight_position (snd (forEach_reading vs i s)) = sunLight_position s
   \<and> sensors (snd (forEach_reading vs i s)) = sensors s
   \<and> clouds (snd (forEach_reading vs i s)) = clouds s
   \<and> frames_rendered (snd (forEach_reading vs i s)) = frames_rendered s"
  by (induction vs i s rule: forEach_reading.induct) (simp_all add: Let_def set_color_def)

lemma frame_updateSensorReadings:
  "panel_rotation_x (snd (updateSensorReadings r s)) = panel_rotation_x s
   \<and> panel_rotation_y (snd (updateSensorReadings r s)) = panel_rotation_y s
   \<and> sun_position (snd (updateSensorReadings r s)) = sun_position s
   \<and> sunLight_position (snd (updateSensorReadings r s)) = sunLight_position s
   \<and> sensors (snd (updateSensorReadings r s)) = sensors s
   \<and> clouds (snd (updateSensorReadings r s)) = clouds s
   \<and> frames_rendered (snd (updateSensorReadings r s)) = frames_rendered s"
  by (cases r) (simp_all add: frame_forEach_reading)

lemma frame_updateClouds:
  "panel_rotation_x (updateClouds cd s) = panel_rotation_x s
   \<and> panel_rotation_y (updateClouds cd s) = panel_rotation_y s
   \<and> sun_position (updateClouds cd s) = sun_position s
   \<and> sunLight_position (updateClouds cd s) = sunLight_position s
   \<and> sensors (updateClouds cd s) = sensors s
   \<and> frames_rendered (updateClouds cd s) = frames_rendered s"
  by (simp add: updateClouds_def split_beta)

lemma forEach_cloud_None: "snd (forEach_cloud None cs i ms) = ms"
  by (induction cs arbitrary: i ms) (simp_all add: Let_def split_beta)

lemma materials_updateClouds_None: "materials (updateClouds None s) = materials s"
  by (simp add: updateClouds_def split_beta forEach_cloud_None)

lemma frame_then_clouds:
  "panel_rotation_x (snd (and_then r (\<lambda>s3. (Returned, updateClouds None s3)))) = panel_rotation_x (snd r)
   \<and> panel_rotation_y (snd (and_then r (\<lambda>s3. (Returned, updateClouds None s3)))) = panel_rotation_y (snd r)
   \<and> sun_position (snd (and_then r (\<lambda>s3. (Returned, updateClouds None s3)))) = sun_position (snd r)
   \<and> sunLight_position (snd (and_then r (\<lambda>s3. (Returned, updateClouds None s3)))) = sunLight_position (snd r)
   \<and> sensors (snd (and_then r (\<lambda>s3. (Returned, updateClouds None s3)))) = sensors (snd r)
   \<and> materials (snd (and_then r (\<lambda>s3. (Returned, updateClouds None s3)))) = materials (snd r)"
proof (cases r)
  case (Pair out s3)
  then show ?thesis
    by (cases out) (simp_all add: and_then_def frame_updateClouds materials_updateClouds_None)
qed

lemma updateFromData_panel:
  "panel_rotation_x (snd (updateFromData data s)) =
     (if panel_tilt data \<noteq> Undefined \<and> panel_azimuth data \<noteq> Undefined
      then degToRad (to_number (panel_tilt data)) else panel_rotation_x s)"
  "panel_rotation_y (snd (updateFromData data s)) =
     (if panel_tilt data \<noteq> Undefined \<and> panel_azimuth data \<noteq> Undefined
      then degToRad (js_sub (to_number (panel_azimuth data)) (Fin 180)) else panel_rotation_y s)"
  by (simp_all add: updateFromData_def Let_def frame_then_clouds frame_updateSensorReadings
      updatePanelOrientation_def updateSunPosition_def)

lemma updateFromData_sun:
  "sun_position (snd (updateFromData data s)) =
     (if sun_elevation data \<noteq> Undefined \<and> sun_azimuth data \<noteq> Undefined
      then sun_position (updateSunPosition (sun_elevation data) (sun_azimuth data) s)
      else sun_position s)"
  "sunLight_position (snd (updateFromData data s)) =
     (if sun_elevation data \<noteq> Undefined \<and> sun_azimuth data \<noteq> Undefined
      then sunLight_position (updateSunPosition (sun_elevation data) (sun_azimuth data) s)
      else sunLight_position s)"
  by (simp_all add: updateFromData_def Let_def frame_then_clouds frame_updateSensorReadings
      updatePanelOrientation_def updateSunPosition_def)

lemma updateFromData_sensors:
  "sensors (snd (updateFromData data s)) = sensors s"
  "\<not> truthy (sensor_readings data) \<Longrightarrow> materials (snd (updateFromData data s)) = materials s"
  by (simp_all add: updateFromData_def Let_def frame_then_clouds frame_updateSensorReadings
      updatePanelOrientation_def updateSunPosition_def)



lemma sensor_color_unchanged:
  "sensors s' = sensors s \<Longrightarrow> materials s' = materials s \<Longrightarrow> sensor_color s' i = sensor_color s i"
  by (simp add: sensor_color_def)

text \<open>
  C4, as the claim states it, fails: a Snapshot without \<open>panel_tilt\<close> and with
  \<open>panel_azimuth = 90\<close> leaves the azimuth rotation of the panel at 0, where the update of
  the azimuth would give \<open>-\<pi>/2\<close>.
\<close>

theorem updateFromData_azimuth_without_tilt:
  "panel_tilt snap_no_tilt = Undefined \<and> panel_azimuth snap_no_tilt = Num (Fin 90)
   \<and> panel_rotation_y (snd (updateFromData snap_no_tilt scene0)) = Fin 0
   \<and> degToRad (js_sub (to_number (panel_azimuth snap_no_tilt)) (Fin 180)) = Fin (- pi / 2)
   \<and> panel_rotation_y (snd (updateFromData snap_no_tilt scene0))
       \<noteq> degToRad (js_sub (to_number (panel_azimuth snap_no_tilt)) (Fin 180))"
  by (simp add: updateFromData_panel snap_no_tilt_def snap0_def scene0_value degToRad_def js_sub_def)

text \<open>
  C4, amended. The panel is turned only when \<open>panel_tilt\<close> and \<open>panel_azimuth\<close> are both
  present, and then both rotations are set: a Snapshot missing one of them leaves the tilt
  rotation and the azimuth rotation unchanged. A Snapshot missing \<open>sun_elevation\<close> or
  \<open>sun_azimuth\<close> leaves the sun and the light where they are, and one missing
  \<open>sensor_readings\<close> leaves every sensor colour unchanged.
\<close>

theorem updateFromData_absent_fields:
  "(panel_tilt data = Undefined \<or> panel_azimuth data = Undefined \<longrightarrow>
      panel_rotation_x (snd (updateFromData data s)) = panel_rotation_x s
      \<and> panel_rotation_y (snd (updateFromData data s)) = panel_rotation_y s)
   \<and> (panel_tilt data \<noteq> Undefined \<and> panel_azimuth data \<noteq> Undefined \<longrightarrow>
      panel_rotation_x (snd (updateFromData data s)) = degToRad (to_number (panel_tilt data))
      \<and> panel_rotation_y (snd (updateFromData data s))
          = degToRad (js_sub (to_number (panel_azimuth data)) (Fin 180)))
   \<and> (sun_elevation data = Undefined \<or> sun_azimuth data = Undefined \<longrightarrow>
      sun_position (snd (updateFromData data s)) = sun_position s
      \<and> sunLight_position (snd (updateFromData data s)) = sunLight_position s)
   \<and> (sensor_readings data = NotArray Undefined \<longrightarrow>
      (\<forall>i. sensor_color (snd (updateFromData data s)) i = sensor_color s i))"
proof -
  have "sensor_color (snd (updateFromData data s)) i = sensor_color s i"
    if "sensor_readings data = NotArray Undefined" for i
    using that by (intro sensor_color_unchanged) (simp_all add: updateFromData_sensors)
  then show ?thesis
    by (simp add: updateFromData_panel updateFromData_sun)
qed

theorem updateFromData_absent_fields_witness:
  "(panel_tilt snap_no_tilt = Undefined \<or> panel_azimuth snap_no_tilt = Undefined)
   \<and> panel_rotation_x (snd (updateFromData snap_no_tilt scene0)) = Fin 0
   \<and> panel_rotation_y (snd (updateFromData snap_no_tilt scene0)) = Fin 0
   \<and> (panel_tilt snap0 \<noteq> Undefined \<and> panel_azimuth snap0 \<noteq> Undefined)
   \<and> panel_rotation_x (snd (updateFromData snap0 scene0)) = Fin (pi / 6)
   \<and> panel_rotation_y (snd (updateFromData snap0 scene0)) = Fin (- pi / 2)
   \<and> (sun_elevation snap_time_only = Undefined \<or> sun_azimuth snap_time_only = Undefined)
   \<and> sun_position (snd (updateFromData snap_time_only scene0)) = (Fin 0, Fin 0, Fin 0)
   \<and> sunLight_position (snd (updateFromData snap_time_only scene0)) = (Fin 10, Fin 10, Fin 10)
   \<and> sensor_readings snap_time_only = NotArray Undefined
   \<and> sensor_color (snd (updateFromData snap_time_only scene0)) 0 = (Fin 1, Fin 0, Fin 0)"
  using updateFromData_absent_fields [of snap_no_tilt scene0]
    updateFromData_absent_fields [of snap0 scene0]
    updateFromData_absent_fields [of snap_time_only scene0]
  by (simp add: snap_no_tilt_def snap0_def snap_time_only_def scene0_value degToRad_def js_sub_def
      sensor_color_def)




text \<open>
  C9: on the readings \<open>[0, 500, 1000, 1500]\<close> the call returns and all four sensors show
  \<open>(0, 1, 0)\<close>, the colour of the last reading: the four sensor meshes hold the one
  \<open>sensorMaterial\<close>, so each \<open>setRGB\<close> recolours all of them.
\<close>

theorem updateSensorReadings_one_material:
  "fst (updateSensorReadings (Array [Num (Fin 0), Num (Fin 500), Num (Fin 1000), Num (Fin 1500)]) scene0)
     = Returned
   \<and> map (sensor_color (snd (updateSensorReadings
              (Array [Num (Fin 0), Num (Fin 500), Num (Fin 1000), Num (Fin 1500)]) scene0))) [0, 1, 2, 3]
     = [(Fin 0, Fin 1, Fin 0), (Fin 0, Fin 1, Fin 0), (Fin 0, Fin 1, Fin 0), (Fin 0, Fin 1, Fin 0)]"
  by (simp add: scene0_value Let_def set_color_def sensor_color_def js_sub_def)

section \<open>Properties of the charts and of the message handler\<close>

lemma length_extend_at: "length (extend_at ts l) = length ts"
  by (induction ts l rule: extend_at.induct) simp_all

lemma nth_extend_at:
  "k < length ts \<Longrightarrow> distinct (map fst l) \<Longrightarrow>
   extend_at ts l ! k =
     (case map_of l k of
        None \<Rightarrow> ts ! k
      | Some (xs, ys) \<Rightarrow> (ts ! k)\<lparr>tr_x := tr_x (ts ! k) @ xs, tr_y := tr_y (ts ! k) @ ys\<rparr>)"
proof (induction ts l rule: extend_at.induct)
  case (1 ts)
  then show ?case by simp
next
  case (2 ts i xs ys rest)
  have "map_of rest i = None"
    using 2 by (simp add: map_of_eq_None_iff)
  then show ?case
    using 2 by (auto simp: nth_list_update split: option.split)
qed

lemma series_upd:
  "series_x (p(gd \<mapsto> c)) gd' k =
     (if gd' = gd then (if k < length (traces c) then tr_x (traces c ! k) else []) else series_x p gd' k)"
  "series_y (p(gd \<mapsto> c)) gd' k =
     (if gd' = gd then (if k < length (traces c) then tr_y (traces c ! k) else []) else series_y p gd' k)"
  by (simp_all add: series_x_def series_y_def)

text \<open>The effect of one successful extendTraces on each series.\<close>

lemma extendTraces_series:
  assumes "has_traces p gd n" "indices = [0 ..< n]" "length xs = n" "length ys = n"
  shows "fst (extendTraces gd xs ys indices p) = Returned"
    and "series_x (snd (extendTraces gd xs ys indices p)) gd' k =
           series_x p gd' k @ (if gd' = gd \<and> k < n then xs ! k else [])"
    and "series_y (snd (extendTraces gd xs ys indices p)) gd' k =
           series_y p gd' k @ (if gd' = gd \<and> k < n then ys ! k else [])"
    and "has_traces (snd (extendTraces gd xs ys indices p)) gd' m = has_traces p gd' m"
proof -
  obtain c where c: "p gd = Some c" "n \<le> length (traces c)"
    using assms(1) by (auto simp: has_traces_def split: option.splits)
  have ok: "list_all (\<lambda>i. i < length (traces c)) indices" "distinct indices"
    "length xs = length indices" "length ys = length indices"
    using assms c by (simp_all add: list_all_iff)
  have eq: "extendTraces gd xs ys indices p
         = (Returned, p(gd \<mapsto> c\<lparr>traces := extend_at (traces c) (zip indices (zip xs ys))\<rparr>))"
    using c(1) ok by (simp add: extendTraces_def)
  have mo: "map_of (zip indices (zip xs ys)) k = (if k < n then Some (xs ! k, ys ! k) else None)" for k
  proof (cases "k < n")
    case True
    then have "map_of (zip indices (zip xs ys)) (indices ! k) = Some (zip xs ys ! k)"
      using assms by (intro map_of_zip_nth) simp_all
    then show ?thesis using True assms by simp
  next
    case False
    then have "k \<notin> set indices" using assms by simp
    then have "k \<notin> fst ` set (zip indices (zip xs ys))"
      by (metis (no_types, lifting) imageE in_set_zipE prod.collapse)
    then show ?thesis using False by (simp add: map_of_eq_None_iff)
  qed
  have d: "distinct (map fst (zip indices (zip xs ys)))"
    using ok assms by simp
  show "fst (extendTraces gd xs ys indices p) = Returned" by (simp add: eq)
  show "series_x (snd (extendTraces gd xs ys indices p)) gd' k =
           series_x p gd' k @ (if gd' = gd \<and> k < n then xs ! k else [])"
    using c by (simp add: eq series_upd length_extend_at nth_extend_at [OF _ d] mo)
      (auto simp: series_x_def)
  show "series_y (snd (extendTraces gd xs ys indices p)) gd' k =
           series_y p gd' k @ (if gd' = gd \<and> k < n then ys ! k else [])"
    using c by (simp add: eq series_upd length_extend_at nth_extend_at [OF _ d] mo)
      (auto simp: series_y_def)
  show "has_traces (snd (extendTraces gd xs ys indices p)) gd' m = has_traces p gd' m"
    using c by (simp add: eq has_traces_def length_extend_at)
qed


lemma js_index_Some:
  assumes "r \<noteq> NotArray Undefined" "r \<noteq> NotArray Null"
  shows "js_index r i = Some (the (js_index r i))"
proof (cases r)
  case (NotArray v)
  then show ?thesis using assms by (cases v) simp_all
next
  case (Array vs)
  then show ?thesis by simp
qed

lemma upt_small: "[0 ..< 1] = [0::nat]" "[0 ..< 2] = [0, 1::nat]" "[0 ..< 3] = [0, 1, 2::nat]"
  "[0 ..< 4] = [0, 1, 2, 3::nat]"
  by (simp_all add: upt_rec)

lemma and_then_Returned: "fst r = Returned \<Longrightarrow> and_then r f = f (snd r)"
  by (cases r) (simp add: and_then_def)

lemma updateCharts_ready:
  assumes "charts_ready p"
    and "sensor_readings data \<noteq> NotArray Undefined" "sensor_readings data \<noteq> NotArray Null"
  shows "updateCharts data p =
    (let t = Num (js_div (to_number (time data)) (Fin 60));
         r = (\<lambda>i. the (js_index (sensor_readings data) i)) in
     extendTraces ''efficiency-chart'' [[t]]
       [[Num (js_div (js_mul (Fin 100) (to_number (total_irradiance data))) (to_number (poa_glb data)))]] [0]
      (snd (extendTraces ''sensors-chart'' [[t], [t], [t], [t]] [[r 0], [r 1], [r 2], [r 3]] [0, 1, 2, 3]
      (snd (extendTraces ''angles-chart'' [[t], [t], [t]]
              [[panel_tilt data], [panel_azimuth data], [sun_elevation data]] [0, 1, 2]
      (snd (extendTraces ''irradiance-chart'' [[t], [t]]
              [[total_irradiance data], [poa_glb data]] [0, 1] p)))))))"
proof -
  define t where "t = Num (js_div (to_number (time data)) (Fin 60))"
  define r where "r = (\<lambda>i. the (js_index (sensor_readings data) i))"
  define e1 where "e1 = extendTraces ''irradiance-chart'' [[t], [t]]
              [[total_irradiance data], [poa_glb data]] [0, 1] p"
  define e2 where "e2 = extendTraces ''angles-chart'' [[t], [t], [t]]
              [[panel_tilt data], [panel_azimuth data], [sun_elevation data]] [0, 1, 2] (snd e1)"
  define e3 where "e3 = extendTraces ''sensors-chart'' [[t], [t], [t], [t]]
              [[r 0], [r 1], [r 2], [r 3]] [0, 1, 2, 3] (snd e2)"
  have h: "has_traces p ''irradiance-chart'' 2" "has_traces p ''angles-chart'' 3"
    "has_traces p ''sensors-chart'' 4" "has_traces p ''efficiency-chart'' 1"
    using assms(1) by (simp_all add: charts_ready_def)
  have f1: "fst e1 = Returned"
    unfolding e1_def by (rule extendTraces_series(1) [OF h(1)]) (simp_all add: upt_small)
  have h1: "has_traces (snd e1) gd m = has_traces p gd m" for gd m
    unfolding e1_def by (rule extendTraces_series(4) [OF h(1)]) (simp_all add: upt_small)
  have f2: "fst e2 = Returned"
    unfolding e2_def by (rule extendTraces_series(1) [of _ _ 3]) (simp_all add: upt_small h1 h)
  have h2: "has_traces (snd e2) gd m = has_traces p gd m" for gd m
    unfolding e2_def using extendTraces_series(4) [of "snd e1" "''angles-chart''" 3 "[0, 1, 2]"]
    by (simp add: upt_small h1 h)
  have f3: "fst e3 = Returned"
    unfolding e3_def by (rule extendTraces_series(1) [of _ _ 4]) (simp_all add: upt_small h2 h)
  have th: "those (map (js_index (sensor_readings data)) [0, 1, 2, 3]) = Some [r 0, r 1, r 2, r 3]"
  proof -
    have "js_index (sensor_readings data) i = Some (r i)" for i
      unfolding r_def by (rule js_index_Some [OF assms(2,3)])
    then show ?thesis by simp
  qed
  have "updateCharts data p = and_then e1 (\<lambda>p1. and_then
          (extendTraces ''angles-chart'' [[t], [t], [t]]
              [[panel_tilt data], [panel_azimuth data], [sun_elevation data]] [0, 1, 2] p1)
          (\<lambda>p2. and_then (extendTraces ''sensors-chart'' [[t], [t], [t], [t]]
              [[r 0], [r 1], [r 2], [r 3]] [0, 1, 2, 3] p2)
          (\<lambda>p3. extendTraces ''efficiency-chart'' [[t]]
       [[Num (js_div (js_mul (Fin 100) (to_number (total_irradiance data))) (to_number (poa_glb data)))]] [0] p3)))"
    unfolding updateCharts_def Let_def th t_def [symmetric] e1_def by simp
  also have "\<dots> = and_then e2
          (\<lambda>p2. and_then (extendTraces ''sensors-chart'' [[t], [t], [t], [t]]
              [[r 0], [r 1], [r 2], [r 3]] [0, 1, 2, 3] p2)
          (\<lambda>p3. extendTraces ''efficiency-chart'' [[t]]
       [[Num (js_div (js_mul (Fin 100) (to_number (total_irradiance data))) (to_number (poa_glb data)))]] [0] p3))"
    by (simp only: and_then_Returned [OF f1] e2_def)
  also have "\<dots> = and_then e3
          (\<lambda>p3. extendTraces ''efficiency-chart'' [[t]]
       [[Num (js_div (js_mul (Fin 100) (to_number (total_irradiance data))) (to_number (poa_glb data)))]] [0] p3)"
    by (simp only: and_then_Returned [OF f2] e3_def)
  also have "\<dots> = extendTraces ''efficiency-chart'' [[t]]
       [[Num (js_div (js_mul (Fin 100) (to_number (total_irradiance data))) (to_number (poa_glb data)))]] [0] (snd e3)"
    by (simp only: and_then_Returned [OF f3])
  finally show ?thesis
    unfolding Let_def t_def [symmetric] r_def [symmetric] e1_def e2_def e3_def .
qed


lemma updateCharts_series:
  assumes "charts_ready p"
    and "sensor_readings data \<noteq> NotArray Undefined" "sensor_readings data \<noteq> NotArray Null"
  shows "fst (updateCharts data p) = Returned"
    and "series_x (snd (updateCharts data p)) gd k =
           series_x p gd k
           @ (if (gd = ''irradiance-chart'' \<and> k < 2) \<or> (gd = ''angles-chart'' \<and> k < 3)
                 \<or> (gd = ''sensors-chart'' \<and> k < 4) \<or> (gd = ''efficiency-chart'' \<and> k < 1)
              then [Num (js_div (to_number (time data)) (Fin 60))] else [])"
    and "series_y (snd (updateCharts data p)) gd k =
           series_y p gd k
           @ (if gd = ''irradiance-chart'' \<and> k < 2
              then [[total_irradiance data], [poa_glb data]] ! k
              else if gd = ''angles-chart'' \<and> k < 3
              then [[panel_tilt data], [panel_azimuth data], [sun_elevation data]] ! k
              else if gd = ''sensors-chart'' \<and> k < 4
              then [the (js_index (sensor_readings data) k)]
              else if gd = ''efficiency-chart'' \<and> k < 1
              then [Num (js_div (js_mul (Fin 100) (to_number (total_irradiance data)))
                           (to_number (poa_glb data)))]
              else [])"
    and "has_traces (snd (updateCharts data p)) gd m = has_traces p gd m"
proof -
  define t where "t = Num (js_div (to_number (time data)) (Fin 60))"
  define r where "r = (\<lambda>i. the (js_index (sensor_readings data) i))"
  define eff where "eff = Num (js_div (js_mul (Fin 100) (to_number (total_irradiance data)))
                           (to_number (poa_glb data)))"
  define e1 where "e1 = extendTraces ''irradiance-chart'' [[t], [t]]
              [[total_irradiance data], [poa_glb data]] [0, 1] p"
  define e2 where "e2 = extendTraces ''angles-chart'' [[t], [t], [t]]
              [[panel_tilt data], [panel_azimuth data], [sun_elevation data]] [0, 1, 2] (snd e1)"
  define e3 where "e3 = extendTraces ''sensors-chart'' [[t], [t], [t], [t]]
              [[r 0], [r 1], [r 2], [r 3]] [0, 1, 2, 3] (snd e2)"
  define e4 where "e4 = extendTraces ''efficiency-chart'' [[t]] [[eff]] [0] (snd e3)"
  have eq: "updateCharts data p = e4"
    unfolding updateCharts_ready [OF assms] Let_def e4_def e3_def e2_def e1_def t_def r_def eff_def ..
  have h: "has_traces p ''irradiance-chart'' 2" "has_traces p ''angles-chart'' 3"
    "has_traces p ''sensors-chart'' 4" "has_traces p ''efficiency-chart'' 1"
    "has_traces p ''efficiency-chart'' (Suc 0)"
    using assms(1) by (simp_all add: charts_ready_def)
  have c: "k < length xs \<Longrightarrow> \<forall>x \<in> set xs. x = [t] \<Longrightarrow> xs ! k = [t]" for k and xs :: "jsval list list"
    by simp
  have f1: "fst e1 = Returned"
    unfolding e1_def by (rule extendTraces_series(1) [OF h(1)]) (simp_all add: upt_small)
  have h1: "has_traces (snd e1) gd m = has_traces p gd m" for gd m
    unfolding e1_def by (rule extendTraces_series(4) [OF h(1)]) (simp_all add: upt_small)
  have g2: "has_traces (snd e1) ''angles-chart'' 3"
    by (simp only: h1 h)
  have h2: "has_traces (snd e2) gd m = has_traces p gd m" for gd m
    unfolding e2_def h1 [symmetric]
    by (rule extendTraces_series(4) [OF g2]) (simp_all add: upt_small)
  have g3: "has_traces (snd e2) ''sensors-chart'' 4"
    by (simp only: h2 h)
  have h3: "has_traces (snd e3) gd m = has_traces p gd m" for gd m
    unfolding e3_def h2 [symmetric]
    by (rule extendTraces_series(4) [OF g3]) (simp_all add: upt_small)
  have g4: "has_traces (snd e3) ''efficiency-chart'' 1"
    by (simp only: h3 h)
  show "fst (updateCharts data p) = Returned"
    unfolding eq e4_def by (rule extendTraces_series(1) [OF g4]) (simp_all add: upt_small)
  show "has_traces (snd (updateCharts data p)) gd m = has_traces p gd m"
    unfolding eq e4_def h3 [symmetric]
    by (rule extendTraces_series(4) [OF g4]) (simp_all add: upt_small)
  have "series_x (snd e1) gd k = series_x p gd k
      @ (if gd = ''irradiance-chart'' \<and> k < 2 then [[t], [t]] ! k else [])"
    unfolding e1_def by (rule extendTraces_series(2) [OF h(1)]) (simp_all add: upt_small)
  then have x1: "series_x (snd e1) gd k = series_x p gd k
      @ (if gd = ''irradiance-chart'' \<and> k < 2 then [t] else [])"
    using c [of k "[[t], [t]]"] by (simp split: if_splits)
  have "series_x (snd e2) gd k = series_x (snd e1) gd k
      @ (if gd = ''angles-chart'' \<and> k < 3 then [[t], [t], [t]] ! k else [])"
    unfolding e2_def by (rule extendTraces_series(2) [OF g2]) (simp_all add: upt_small)
  then have x2: "series_x (snd e2) gd k = series_x (snd e1) gd k
      @ (if gd = ''angles-chart'' \<and> k < 3 then [t] else [])"
    using c [of k "[[t], [t], [t]]"] by (simp split: if_splits)
  have "series_x (snd e3) gd k = series_x (snd e2) gd k
      @ (if gd = ''sensors-chart'' \<and> k < 4 then [[t], [t], [t], [t]] ! k else [])"
    unfolding e3_def by (rule extendTraces_series(2) [OF g3]) (simp_all add: upt_small)
  then have x3: "series_x (snd e3) gd k = series_x (snd e2) gd k
      @ (if gd = ''sensors-chart'' \<and> k < 4 then [t] else [])"
    using c [of k "[[t], [t], [t], [t]]"] by (simp split: if_splits)
  have "series_x (snd e4) gd k = series_x (snd e3) gd k
      @ (if gd = ''efficiency-chart'' \<and> k < 1 then [[t]] ! k else [])"
    unfolding e4_def by (rule extendTraces_series(2) [OF g4]) (simp_all add: upt_small)
  then have x4: "series_x (snd e4) gd k = series_x (snd e3) gd k
      @ (if gd = ''efficiency-chart'' \<and> k < 1 then [t] else [])"
    by (simp split: if_splits)
  show "series_x (snd (updateCharts data p)) gd k =
           series_x p gd k
           @ (if (gd = ''irradiance-chart'' \<and> k < 2) \<or> (gd = ''angles-chart'' \<and> k < 3)
                 \<or> (gd = ''sensors-chart'' \<and> k < 4) \<or> (gd = ''efficiency-chart'' \<and> k < 1)
              then [Num (js_div (to_number (time data)) (Fin 60))] else [])"
    unfolding eq x4 x3 x2 x1 t_def [symmetric] by auto
  have y1: "series_y (snd e1) gd k = series_y p gd k
      @ (if gd = ''irradiance-chart'' \<and> k < 2 then [[total_irradiance data], [poa_glb data]] ! k else [])"
    unfolding e1_def by (rule extendTraces_series(3) [OF h(1)]) (simp_all add: upt_small)
  have y2: "series_y (snd e2) gd k = series_y (snd e1) gd k
      @ (if gd = ''angles-chart'' \<and> k < 3
         then [[panel_tilt data], [panel_azimuth data], [sun_elevation data]] ! k else [])"
    unfolding e2_def by (rule extendTraces_series(3) [OF g2]) (simp_all add: upt_small)
  have "series_y (snd e3) gd k = series_y (snd e2) gd k
      @ (if gd = ''sensors-chart'' \<and> k < 4 then [[r 0], [r 1], [r 2], [r 3]] ! k else [])"
    unfolding e3_def by (rule extendTraces_series(3) [OF g3]) (simp_all add: upt_small)
  moreover have "k < 4 \<Longrightarrow> [[r 0], [r 1], [r 2], [r 3]] ! k = [r k]"
    by (auto simp: eval_nat_numeral less_Suc_eq)
  ultimately have y3: "series_y (snd e3) gd k = series_y (snd e2) gd k
      @ (if gd = ''sensors-chart'' \<and> k < 4 then [r k] else [])"
    by (simp split: if_splits)
  have "series_y (snd e4) gd k = series_y (snd e3) gd k
      @ (if gd = ''efficiency-chart'' \<and> k < 1 then [[eff]] ! k else [])"
    unfolding e4_def by (rule extendTraces_series(3) [OF g4]) (simp_all add: upt_small)
  then have y4: "series_y (snd e4) gd k = series_y (snd e3) gd k
      @ (if gd = ''efficiency-chart'' \<and> k < 1 then [eff] else [])"
    by (simp split: if_splits)
  show "series_y (snd (updateCharts data p)) gd k =
           series_y p gd k
           @ (if gd = ''irradiance-chart'' \<and> k < 2
              then [[total_irradiance data], [poa_glb data]] ! k
              else if gd = ''angles-chart'' \<and> k < 3
              then [[panel_tilt data], [panel_azimuth data], [sun_elevation data]] ! k
              else if gd = ''sensors-chart'' \<and> k < 4
              then [the (js_index (sensor_readings data) k)]
              else if gd = ''efficiency-chart'' \<and> k < 1
              then [Num (js_div (js_mul (Fin 100) (to_number (total_irradiance data)))
                           (to_number (poa_glb data)))]
              else [])"
    unfolding eq y4 y3 y2 y1 by (auto simp: r_def eff_def)
qed

lemma page0_plots:
  "charts_ready (plots page0)"
  "series_x (plots page0) gd k = []"
  "series_y (plots page0) gd k = []"
  by (auto simp add: page0_def loaded_def fresh_def initCharts_def add_chart_def newPlot_def Let_def
      charts_ready_def has_traces_def series_x_def series_y_def empty_trace_def nth_Cons'
      split: option.split)

lemma page0_fields:
  "charts page0 = [(''irradiance'', Promise), (''angles'', Promise), (''sensors'', Promise),
                   (''efficiency'', Promise)]"
  "simulationData page0 = []"
  "pvVisualization page0 = Some scene0"
  "status page0 = None" "progress_width page0 = None" "progress_text page0 = None"
  "summary_html page0 = None"
  by (simp_all add: page0_def loaded_def fresh_def initCharts_def add_chart_def newPlot_def Let_def scene0_def)

text \<open>
  C3, amended. On plotted charts and for a Snapshot whose \<open>sensor_readings\<close> can be indexed
  (it is neither \<open>undefined\<close> nor \<open>null\<close>), \<open>updateCharts\<close> returns and appends exactly one
  point to each of the ten series: its x is \<open>time / 60\<close> and its y is what the read of the
  corresponding field gives, which is \<open>undefined\<close> when the field is absent. No series is
  skipped for an absent field.
\<close>

theorem updateCharts_appends_to_every_series:
  assumes "charts_ready p"
    and "sensor_readings data \<noteq> NotArray Undefined" and "sensor_readings data \<noteq> NotArray Null"
  shows "fst (updateCharts data p) = Returned
    \<and> (\<forall>(gd, k) \<in> set chart_series.
          series_x (snd (updateCharts data p)) gd k
            = series_x p gd k @ [Num (js_div (to_number (time data)) (Fin 60))])
    \<and> series_y (snd (updateCharts data p)) ''irradiance-chart'' 0
        = series_y p ''irradiance-chart'' 0 @ [total_irradiance data]
    \<and> series_y (snd (updateCharts data p)) ''irradiance-chart'' 1
        = series_y p ''irradiance-chart'' 1 @ [poa_glb data]
    \<and> series_y (snd (updateCharts data p)) ''angles-chart'' 0
        = series_y p ''angles-chart'' 0 @ [panel_tilt data]
    \<and> series_y (snd (updateCharts data p)) ''angles-chart'' 1
        = series_y p ''angles-chart'' 1 @ [panel_azimuth data]
    \<and> series_y (snd (updateCharts data p)) ''angles-chart'' 2
        = series_y p ''angles-chart'' 2 @ [sun_elevation data]
    \<and> (\<forall>k < 4. series_y (snd (updateCharts data p)) ''sensors-chart'' k
        = series_y p ''sensors-chart'' k @ [the (js_index (sensor_readings data) k)])
    \<and> series_y (snd (updateCharts data p)) ''efficiency-chart'' 0
        = series_y p ''efficiency-chart'' 0
          @ [Num (js_div (js_mul (Fin 100) (to_number (total_irradiance data)))
                    (to_number (poa_glb data)))]"
  by (simp add: updateCharts_series [OF assms] chart_series_def)

text \<open>
  The amended C3 on the loaded page and the Snapshot without \<open>panel_tilt\<close>.
\<close>

theorem updateCharts_appends_to_every_series_witness:
  "charts_ready (plots page0)
   \<and> sensor_readings snap_no_tilt \<noteq> NotArray Undefined \<and> sensor_readings snap_no_tilt \<noteq> NotArray Null
   \<and> fst (updateCharts snap_no_tilt (plots page0)) = Returned
   \<and> series_x (snd (updateCharts snap_no_tilt (plots page0))) ''sensors-chart'' 3 = [Num (Fin 1)]
   \<and> series_y (snd (updateCharts snap_no_tilt (plots page0))) ''sensors-chart'' 3 = [Num (Fin 1500)]
   \<and> series_y (snd (updateCharts snap_no_tilt (plots page0))) ''angles-chart'' 0 = [Undefined]
   \<and> series_y (snd (updateCharts snap_no_tilt (plots page0))) ''angles-chart'' 1 = [Num (Fin 90)]"
proof -
  have r: "sensor_readings snap_no_tilt \<noteq> NotArray Undefined" "sensor_readings snap_no_tilt \<noteq> NotArray Null"
    by (simp_all add: snap_no_tilt_def snap0_def)
  show ?thesis
    using updateCharts_appends_to_every_series [OF page0_plots(1) r]
    by (simp add: r page0_plots chart_series_def) (simp add: snap_no_tilt_def snap0_def)
qed

text \<open>
  C3, as the claim states it, fails: for a Snapshot without \<open>panel_tilt\<close> the series
  Panel Tilt, empty before, receives the point \<open>(1, undefined)\<close>.
\<close>

theorem updateCharts_charts_absent_tilt:
  "panel_tilt snap_no_tilt = Undefined
   \<and> fst (updateCharts snap_no_tilt (plots page0)) = Returned
   \<and> series_x (plots page0) ''angles-chart'' 0 = []
   \<and> series_y (plots page0) ''angles-chart'' 0 = []
   \<and> series_x (snd (updateCharts snap_no_tilt (plots page0))) ''angles-chart'' 0 = [Num (Fin 1)]
   \<and> series_y (snd (updateCharts snap_no_tilt (plots page0))) ''angles-chart'' 0 = [Undefined]"
proof -
  have r: "sensor_readings snap_no_tilt \<noteq> NotArray Undefined" "sensor_readings snap_no_tilt \<noteq> NotArray Null"
    by (simp_all add: snap_no_tilt_def snap0_def)
  show ?thesis
    by (simp add: updateCharts_series [OF page0_plots(1) r] page0_plots)
      (simp add: snap_no_tilt_def snap0_def)
qed

lemma div_by_zero_or_absent:
  "d = NaN \<or> d = Fin 0 \<Longrightarrow> js_div n d \<in> {NaN, PInf, NInf}"
  by (cases n) (auto simp: inf_of_sign_def split: if_splits)

text \<open>
  C1, amended. On plotted charts and for a Snapshot whose \<open>sensor_readings\<close> can be indexed,
  \<open>updateCharts\<close> appends exactly one point to the Efficiency series, with x \<open>time / 60\<close> and
  y \<open>100 * total_irradiance / poa_glb\<close>; when \<open>poa_glb\<close> is absent or zero that y is \<open>NaN\<close>
  or an infinity: the point is not skipped.
\<close>

theorem updateCharts_efficiency_point:
  assumes "charts_ready p"
    and "sensor_readings data \<noteq> NotArray Undefined" and "sensor_readings data \<noteq> NotArray Null"
  shows "fst (updateCharts data p) = Returned
    \<and> series_x (snd (updateCharts data p)) ''efficiency-chart'' 0
        = series_x p ''efficiency-chart'' 0 @ [Num (js_div (to_number (time data)) (Fin 60))]
    \<and> series_y (snd (updateCharts data p)) ''efficiency-chart'' 0
        = series_y p ''efficiency-chart'' 0
          @ [Num (js_div (js_mul (Fin 100) (to_number (total_irradiance data)))
                    (to_number (poa_glb data)))]
    \<and> (poa_glb data = Undefined \<or> poa_glb data = Num (Fin 0) \<longrightarrow>
         js_div (js_mul (Fin 100) (to_number (total_irradiance data))) (to_number (poa_glb data))
           \<in> {NaN, PInf, NInf})"
proof -
  have "js_div n (to_number (poa_glb data)) \<in> {NaN, PInf, NInf}"
    if "poa_glb data = Undefined \<or> poa_glb data = Num (Fin 0)" for n
    using that by (intro div_by_zero_or_absent) auto
  then show ?thesis
    by (simp add: updateCharts_series [OF assms])
qed

text \<open>
  The amended C1 on the loaded page, for \<open>poa_glb = 0\<close> and for \<open>poa_glb\<close> absent.
\<close>

theorem updateCharts_efficiency_point_witness:
  "charts_ready (plots page0)
   \<and> sensor_readings snap_poa_zero \<noteq> NotArray Undefined \<and> sensor_readings snap_poa_zero \<noteq> NotArray Null
   \<and> sensor_readings snap_no_poa \<noteq> NotArray Undefined \<and> sensor_readings snap_no_poa \<noteq> NotArray Null
   \<and> poa_glb snap_poa_zero = Num (Fin 0) \<and> poa_glb snap_no_poa = Undefined
   \<and> series_x (snd (updateCharts snap_poa_zero (plots page0))) ''efficiency-chart'' 0 = [Num (Fin 1)]
   \<and> series_y (snd (updateCharts snap_poa_zero (plots page0))) ''efficiency-chart'' 0 = [Num PInf]
   \<and> series_y (snd (updateCharts snap_no_poa (plots page0))) ''efficiency-chart'' 0 = [Num NaN]"
proof -
  have r: "sensor_readings snap_poa_zero \<noteq> NotArray Undefined" "sensor_readings snap_poa_zero \<noteq> NotArray Null"
    "sensor_readings snap_no_poa \<noteq> NotArray Undefined" "sensor_readings snap_no_poa \<noteq> NotArray Null"
    by (simp_all add: snap_poa_zero_def snap_no_poa_def snap0_def)
  have p: "poa_glb snap_poa_zero = Num (Fin 0)" "poa_glb snap_no_poa = Undefined"
    by (simp_all add: snap_poa_zero_def snap_no_poa_def)
  show ?thesis
    using updateCharts_efficiency_point [OF page0_plots(1) r(1,2)]
      updateCharts_efficiency_point [OF page0_plots(1) r(3,4)]
    by (simp add: r p page0_plots) (simp add: snap_poa_zero_def snap_no_poa_def snap0_def inf_of_sign_def)
qed

text \<open>
  C1, as the claim states it, fails: with \<open>poa_glb = 0\<close> the Efficiency series, empty
  before, receives \<open>Infinity\<close>, and with \<open>poa_glb\<close> absent it receives \<open>NaN\<close>.
\<close>

theorem updateCharts_efficiency_poa_zero:
  "poa_glb snap_poa_zero = Num (Fin 0) \<and> poa_glb snap_no_poa = Undefined
   \<and> series_y (plots page0) ''efficiency-chart'' 0 = []
   \<and> series_y (snd (updateCharts snap_poa_zero (plots page0))) ''efficiency-chart'' 0 = [Num PInf]
   \<and> series_y (snd (updateCharts snap_no_poa (plots page0))) ''efficiency-chart'' 0 = [Num NaN]"
proof -
  have r: "sensor_readings snap_poa_zero \<noteq> NotArray Undefined" "sensor_readings snap_poa_zero \<noteq> NotArray Null"
    "sensor_readings snap_no_poa \<noteq> NotArray Undefined" "sensor_readings snap_no_poa \<noteq> NotArray Null"
    by (simp_all add: snap_poa_zero_def snap_no_poa_def snap0_def)
  show ?thesis
    by (simp add: updateCharts_series [OF page0_plots(1) r(1,2)]
        updateCharts_series [OF page0_plots(1) r(3,4)] page0_plots)
      (simp add: snap_poa_zero_def snap_no_poa_def snap0_def inf_of_sign_def)
qed

lemma stats_html_numbers:
  "list_all (\<lambda>(key, v). is_number v) stats \<Longrightarrow> \<exists>html. stats_html stats acc = Some html"
proof (induction stats arbitrary: acc)
  case Nil
  then show ?case by simp
next
  case (Cons kv stats)
  obtain key v where kv: "kv = (key, v)" by (cases kv)
  with Cons.prems obtain n where "v = Num n" by (cases v) simp_all
  with Cons kv show ?case by simp
qed

text \<open>The state after the two widget updates that open the handler.\<close>

lemma widgets_return:
  assumes "widgets_ok data"
  shows "\<exists>st2. and_then (updateProgress (progress data) st)
             (\<lambda>st1. case summary_stats data of None \<Rightarrow> (Returned, st1)
                    | Some stats \<Rightarrow> updateSummaryStats stats st1) = (Returned, st2)
           \<and> simulationData st2 = simulationData st \<and> pvVisualization st2 = pvVisualization st
           \<and> plots st2 = plots st \<and> charts st2 = charts st"
proof -
  obtain n where n: "progress data = Num n"
    using assms by (cases "progress data") (simp_all add: widgets_ok_def)
  show ?thesis
  proof (cases "summary_stats data")
    case None
    then show ?thesis by (simp add: n updateProgress_def and_then_def)
  next
    case (Some stats)
    then have "list_all (\<lambda>(key, v). is_number v) stats"
      using assms by (simp add: widgets_ok_def)
    then obtain html where "stats_html stats [] = Some html"
      using stats_html_numbers by blast
    then show ?thesis
      by (simp add: n Some updateProgress_def and_then_def updateSummaryStats_def)
  qed
qed

lemma on_scene_frame:
  "simulationData (snd (on_scene f st)) = simulationData st"
  "plots (snd (on_scene f st)) = plots st"
  "charts (snd (on_scene f st)) = charts st"
  by (simp_all add: on_scene_def split: option.split prod.split)

lemma on_plots_frame:
  "simulationData (snd (on_plots f st)) = simulationData st"
  "pvVisualization (snd (on_plots f st)) = pvVisualization st"
  "charts (snd (on_plots f st)) = charts st"
  "plots (snd (on_plots f st)) = snd (f (plots st))"
  "fst (on_plots f st) = fst (f (plots st))"
  by (simp_all add: on_plots_def split: prod.split)

lemma and_then_frame:
  assumes "\<And>s. g (snd (f s)) = g s"
  shows "g (snd (and_then r f)) = g (snd r)"
  by (cases r; cases "fst r") (auto simp: and_then_def assms)

lemma handleSimulationData_Some:
  assumes "widgets_ok data" and "current_data data = Some cd"
  shows "\<exists>st3. handleSimulationData data st
            = and_then (on_scene (updateFromData cd) st3) (on_plots (updateCharts cd))
           \<and> simulationData st3 = simulationData st @ [cd]
           \<and> pvVisualization st3 = pvVisualization st \<and> plots st3 = plots st
           \<and> charts st3 = charts st"
proof -
  obtain st2 where st2: "and_then (updateProgress (progress data) st)
             (\<lambda>st1. case summary_stats data of None \<Rightarrow> (Returned, st1)
                    | Some stats \<Rightarrow> updateSummaryStats stats st1) = (Returned, st2)"
    "simulationData st2 = simulationData st" "pvVisualization st2 = pvVisualization st"
    "plots st2 = plots st" "charts st2 = charts st"
    using widgets_return [OF assms(1)] by blast
  have "handleSimulationData data st =
     and_then (and_then (updateProgress (progress data) st)
             (\<lambda>st1. case summary_stats data of None \<Rightarrow> (Returned, st1)
                    | Some stats \<Rightarrow> updateSummaryStats stats st1))
       (\<lambda>st2. and_then (on_scene (updateFromData cd) (st2\<lparr>simulationData := simulationData st2 @ [cd]\<rparr>))
                 (on_plots (updateCharts cd)))"
    by (cases "updateProgress (progress data) st"; cases "fst (updateProgress (progress data) st)")
      (auto simp: handleSimulationData_def assms(2) and_then_def Let_def)
  then show ?thesis
    using st2 by (intro exI [of _ "st2\<lparr>simulationData := simulationData st2 @ [cd]\<rparr>"])
      (simp add: and_then_def)
qed

lemma handleSimulationData_history:
  assumes "widgets_ok data" and "current_data data = Some cd"
  shows "simulationData (snd (handleSimulationData data st)) = simulationData st @ [cd]"
proof -
  obtain st3 where st3: "handleSimulationData data st
            = and_then (on_scene (updateFromData cd) st3) (on_plots (updateCharts cd))"
    "simulationData st3 = simulationData st @ [cd]"
    using handleSimulationData_Some [OF assms] by blast
  show ?thesis
    unfolding st3(1)
    by (simp add: and_then_frame [where g = simulationData] on_plots_frame on_scene_frame st3(2))
qed

lemma handle_all_history:
  "\<forall>m \<in> set ms. widgets_ok m \<and> current_data m \<noteq> None \<Longrightarrow>
   simulationData (handle_all ms st) = simulationData st @ map (\<lambda>m. the (current_data m)) ms"
proof (induction ms arbitrary: st)
  case Nil
  then show ?case by (simp add: handle_all_def)
next
  case (Cons m ms)
  then obtain cd where cd: "current_data m = Some cd" by auto
  have "handle_all (m # ms) st = handle_all ms (snd (handleSimulationData m st))"
    by (simp add: handle_all_def)
  then show ?case
    using Cons cd by (simp add: handleSimulationData_history)
qed

text \<open>
  C8, amended. The handler keeps every Snapshot: for a message whose progress and summary
  values are numbers and that carries \<open>current_data\<close>, the Snapshot is appended to the global
  \<open>simulationData\<close>, whatever happens in the sinks afterwards; over a sequence of such
  messages the history grows by one entry for each message.
\<close>

theorem handleSimulationData_stores_snapshot:
  "(widgets_ok data \<and> current_data data = Some cd \<longrightarrow>
      simulationData (snd (handleSimulationData data st)) = simulationData st @ [cd])
   \<and> ((\<forall>m \<in> set ms. widgets_ok m \<and> current_data m \<noteq> None) \<longrightarrow>
      simulationData (handle_all ms st) = simulationData st @ map (\<lambda>m. the (current_data m)) ms)"
  by (simp add: handleSimulationData_history handle_all_history)

lemma handleSimulationData_applies:
  assumes "widgets_ok data" and "current_data data = Some cd"
    and "pvVisualization st = Some sc" and "fst (updateFromData cd sc) = Returned"
    and "charts_ready (plots st)"
    and "sensor_readings cd \<noteq> NotArray Undefined" and "sensor_readings cd \<noteq> NotArray Null"
  shows "fst (handleSimulationData data st) = Returned"
    and "simulationData (snd (handleSimulationData data st)) = simulationData st @ [cd]"
    and "pvVisualization (snd (handleSimulationData data st)) = Some (snd (updateFromData cd sc))"
    and "plots (snd (handleSimulationData data st)) = snd (updateCharts cd (plots st))"
proof -
  obtain st3 where st3: "handleSimulationData data st
            = and_then (on_scene (updateFromData cd) st3) (on_plots (updateCharts cd))"
    "simulationData st3 = simulationData st @ [cd]"
    "pvVisualization st3 = pvVisualization st" "plots st3 = plots st"
    using handleSimulationData_Some [OF assms(1,2)] by blast
  obtain sc1 where sc1: "updateFromData cd sc = (Returned, sc1)"
    using assms(4) by (cases "updateFromData cd sc") simp
  have os: "on_scene (updateFromData cd) st3 = (Returned, st3\<lparr>pvVisualization := Some sc1\<rparr>)"
    by (simp add: on_scene_def st3(3) assms(3) sc1)
  have eq: "handleSimulationData data st
      = on_plots (updateCharts cd) (st3\<lparr>pvVisualization := Some sc1\<rparr>)"
    by (simp add: st3(1) os and_then_def)
  show "fst (handleSimulationData data st) = Returned"
    by (simp add: eq on_plots_frame st3(4) updateCharts_series(1) [OF assms(5,6,7)])
  show "simulationData (snd (handleSimulationData data st)) = simulationData st @ [cd]"
    by (simp add: eq on_plots_frame st3(2))
  show "pvVisualization (snd (handleSimulationData data st)) = Some (snd (updateFromData cd sc))"
    by (simp add: eq on_plots_frame sc1)
  show "plots (snd (handleSimulationData data st)) = snd (updateCharts cd (plots st))"
    by (simp add: eq on_plots_frame st3(4))
qed

text \<open>The first message on the loaded page, for a Snapshot that is \<open>snap0\<close> up to its time.\<close>

lemma updateFromData_snap0_time:
  "updateFromData (snap0\<lparr>time := t\<rparr>) scene0 =
     (Returned, scene0\<lparr>panel_rotation_x := Fin (pi / 6), panel_rotation_y := Fin (- pi / 2),
        sun_position := (Fin 0, Fin 10, Fin 0), sunLight_position := (Fin 0, Fin 10, Fin 0),
        materials := \<lparr>mat_color = (Fin 0, Fin 1, Fin 0), mat_opacity = Fin 1\<rparr>
                 # replicate 15 \<lparr>mat_color = (Fin 1, Fin 1, Fin 1), mat_opacity = Fin (7 / 10)\<rparr>,
        clouds := [\<lparr>cloud_position = (Fin (1 / 100), Fin 3, Fin 0), cloud_children = [1, 2, 3, 4, 5]\<rparr>,
               \<lparr>cloud_position = (Fin (1 / 100), Fin 3, Fin 0), cloud_children = [6, 7, 8, 9, 10]\<rparr>,
               \<lparr>cloud_position = (Fin (1 / 100), Fin 3, Fin 0), cloud_children = [11, 12, 13, 14, 15]\<rparr>]\<rparr>)"
  by (simp add: updateFromData_def snap0_def scene0_value Let_def and_then_def set_color_def
      updatePanelOrientation_def updateSunPosition_def degToRad_def js_sub_def updateClouds_def
      move_cloud_def)

lemma first_message:
  assumes "data = \<lparr>progress = Num (Fin 50), summary_stats = None,
                   current_data = Some (snap0\<lparr>time := t\<rparr>)\<rparr>"
  shows "fst (handleSimulationData data page0) = Returned"
    and "simulationData (snd (handleSimulationData data page0)) = [snap0\<lparr>time := t\<rparr>]"
    and "pvVisualization (snd (handleSimulationData data page0))
           = Some (snd (updateFromData (snap0\<lparr>time := t\<rparr>) scene0))"
    and "plots (snd (handleSimulationData data page0))
           = snd (updateCharts (snap0\<lparr>time := t\<rparr>) (plots page0))"
proof -
  have w: "widgets_ok data" "current_data data = Some (snap0\<lparr>time := t\<rparr>)"
    by (simp_all add: assms widgets_ok_def)
  have r: "sensor_readings (snap0\<lparr>time := t\<rparr>) \<noteq> NotArray Undefined"
    "sensor_readings (snap0\<lparr>time := t\<rparr>) \<noteq> NotArray Null"
    by (simp_all add: snap0_def)
  have f: "fst (updateFromData (snap0\<lparr>time := t\<rparr>) scene0) = Returned"
    by (simp add: updateFromData_snap0_time)
  note a = handleSimulationData_applies [OF w page0_fields(3) f page0_plots(1) r]
  show "fst (handleSimulationData data page0) = Returned" by (rule a(1))
  show "simulationData (snd (handleSimulationData data page0)) = [snap0\<lparr>time := t\<rparr>]"
    using a(2) by (simp add: page0_fields)
  show "pvVisualization (snd (handleSimulationData data page0))
           = Some (snd (updateFromData (snap0\<lparr>time := t\<rparr>) scene0))" by (rule a(3))
  show "plots (snd (handleSimulationData data page0))
           = snd (updateCharts (snap0\<lparr>time := t\<rparr>) (plots page0))" by (rule a(4))
qed

lemma series_first:
  "series_x (snd (updateCharts (snap0\<lparr>time := t\<rparr>) (plots page0))) ''efficiency-chart'' 0
     = [Num (js_div (to_number t) (Fin 60))]"
  "series_y (snd (updateCharts (snap0\<lparr>time := t\<rparr>) (plots page0))) ''efficiency-chart'' 0
     = [Num (Fin 50)]"
proof -
  have r: "sensor_readings (snap0\<lparr>time := t\<rparr>) \<noteq> NotArray Undefined"
    "sensor_readings (snap0\<lparr>time := t\<rparr>) \<noteq> NotArray Null"
    by (simp_all add: snap0_def)
  show "series_x (snd (updateCharts (snap0\<lparr>time := t\<rparr>) (plots page0))) ''efficiency-chart'' 0
     = [Num (js_div (to_number t) (Fin 60))]"
    by (simp add: updateCharts_series [OF page0_plots(1) r] page0_plots)
  show "series_y (snd (updateCharts (snap0\<lparr>time := t\<rparr>) (plots page0))) ''efficiency-chart'' 0
     = [Num (Fin 50)]"
    by (simp add: updateCharts_series [OF page0_plots(1) r] page0_plots) (simp add: snap0_def)
qed

lemma string_to_number_abc: "string_to_number ''abc'' = NaN"
  by (simp add: string_to_number_def trim_def is_space_def unsigned_decimal_def is_digit_def
      digit_of_def)

text \<open>
  C2, as the claim states it, fails: the message whose Snapshot has \<open>time: "abc"\<close> is handled
  to the end on the loaded page; the Snapshot is stored, the Efficiency series receives the
  point \<open>(NaN, 50)\<close> and the sun has moved from \<open>(0, 0, 0)\<close> to \<open>(0, 10, 0)\<close>.
\<close>

theorem handleSimulationData_time_abc:
  "time snap_abc = Str ''abc''
   \<and> fst (handleSimulationData msg_abc page0) = Returned
   \<and> simulationData (snd (handleSimulationData msg_abc page0)) = [snap_abc]
   \<and> series_x (plots page0) ''efficiency-chart'' 0 = []
   \<and> series_x (plots (snd (handleSimulationData msg_abc page0))) ''efficiency-chart'' 0 = [Num NaN]
   \<and> series_y (plots (snd (handleSimulationData msg_abc page0))) ''efficiency-chart'' 0 = [Num (Fin 50)]
   \<and> map_option sun_position (pvVisualization page0) = Some (Fin 0, Fin 0, Fin 0)
   \<and> map_option sun_position (pvVisualization (snd (handleSimulationData msg_abc page0)))
       = Some (Fin 0, Fin 10, Fin 0)"
proof -
  have m: "msg_abc = \<lparr>progress = Num (Fin 50), summary_stats = None,
                      current_data = Some (snap0\<lparr>time := Str ''abc''\<rparr>)\<rparr>"
    by (simp add: msg_abc_def snap_abc_def)
  have sun: "sun_position (snd (updateFromData (snap0\<lparr>time := Str ''abc''\<rparr>) scene0))
      = (Fin 0, Fin 10, Fin 0)"
    by (simp add: updateFromData_snap0_time)
  have sun0: "sun_position scene0 = (Fin 0, Fin 0, Fin 0)"
    by (simp add: scene0_value)
  show ?thesis
    by (simp add: first_message [OF m] series_first sun sun0 page0_plots
        page0_fields string_to_number_abc)
      (simp add: snap_abc_def)
qed

text \<open>
  C2, amended. The handler does not validate \<open>time\<close>. For every message whose progress and
  summary values are numbers and whose Snapshot the scene accepts and has an indexable
  \<open>sensor_readings\<close>, whatever its \<open>time\<close> field is: the handler returns, the Snapshot is
  stored, the scene is updated by \<open>updateFromData\<close> (which does not read \<open>time\<close>), and
  each of the ten chart series receives one point, with x \<open>time / 60\<close>.
\<close>

theorem handleSimulationData_does_not_validate_time:
  assumes "widgets_ok data" and "current_data data = Some cd"
    and "pvVisualization st = Some sc" and "fst (updateFromData cd sc) = Returned"
    and "charts_ready (plots st)"
    and "sensor_readings cd \<noteq> NotArray Undefined" and "sensor_readings cd \<noteq> NotArray Null"
  shows "fst (handleSimulationData data st) = Returned
    \<and> simulationData (snd (handleSimulationData data st)) = simulationData st @ [cd]
    \<and> pvVisualization (snd (handleSimulationData data st)) = Some (snd (updateFromData cd sc))
    \<and> updateFromData (cd\<lparr>time := t\<rparr>) sc = updateFromData cd sc
    \<and> (\<forall>(gd, k) \<in> set chart_series.
          series_x (plots (snd (handleSimulationData data st))) gd k
            = series_x (plots st) gd k @ [Num (js_div (to_number (time cd)) (Fin 60))]
          \<and> length (series_y (plots (snd (handleSimulationData data st))) gd k)
            = length (series_y (plots st) gd k) + 1)"
proof -
  note a = handleSimulationData_applies [OF assms]
  have "updateFromData (cd\<lparr>time := t\<rparr>) sc = updateFromData cd sc"
    by (simp add: updateFromData_def)
  then show ?thesis
    by (simp add: a updateCharts_series [OF assms(5,6,7)] chart_series_def)
qed

text \<open>
  The amended C2 on the loaded page and the message with \<open>time: "abc"\<close>.
\<close>

theorem handleSimulationData_does_not_validate_time_witness:
  "widgets_ok msg_abc \<and> current_data msg_abc = Some snap_abc \<and> time snap_abc = Str ''abc''
   \<and> pvVisualization page0 = Some scene0 \<and> fst (updateFromData snap_abc scene0) = Returned
   \<and> charts_ready (plots page0)
   \<and> sensor_readings snap_abc \<noteq> NotArray Undefined \<and> sensor_readings snap_abc \<noteq> NotArray Null
   \<and> fst (handleSimulationData msg_abc page0) = Returned
   \<and> simulationData (snd (handleSimulationData msg_abc page0)) = [snap_abc]
   \<and> series_x (plots (snd (handleSimulationData msg_abc page0))) ''angles-chart'' 2 = [Num NaN]
   \<and> length (series_y (plots (snd (handleSimulationData msg_abc page0))) ''angles-chart'' 2) = 1"
proof -
  have w: "widgets_ok msg_abc" "current_data msg_abc = Some snap_abc"
    by (simp_all add: msg_abc_def widgets_ok_def)
  have r: "sensor_readings snap_abc \<noteq> NotArray Undefined" "sensor_readings snap_abc \<noteq> NotArray Null"
    by (simp_all add: snap_abc_def snap0_def)
  have f: "fst (updateFromData snap_abc scene0) = Returned"
    by (simp add: snap_abc_def updateFromData_snap0_time)
  have t: "time snap_abc = Str ''abc''"
    by (simp add: snap_abc_def)
  show ?thesis
    using handleSimulationData_does_not_validate_time [OF w page0_fields(3) f page0_plots(1) r]
    by (simp add: w r f t page0_fields page0_plots chart_series_def string_to_number_abc)
qed

text \<open>
  C8, as the claim states it, fails: after the handler has returned the Snapshot is in
  \<open>simulationData\<close>, and three messages leave three Snapshots there.
\<close>

theorem handleSimulationData_history_grows:
  "simulationData page0 = []
   \<and> fst (handleSimulationData msg0 page0) = Returned
   \<and> simulationData (snd (handleSimulationData msg0 page0)) = [snap0]
   \<and> simulationData (handle_all [msg0, msg0, msg0] page0) = [snap0, snap0, snap0]"
proof -
  have m: "msg0 = \<lparr>progress = Num (Fin 50), summary_stats = None,
                   current_data = Some (snap0\<lparr>time := Num (Fin 60)\<rparr>)\<rparr>"
    by (simp add: msg0_def snap0_def)
  have s: "snap0\<lparr>time := Num (Fin 60)\<rparr> = snap0"
    by (simp add: snap0_def)
  have w: "\<forall>m \<in> set [msg0, msg0, msg0]. widgets_ok m \<and> current_data m \<noteq> None"
    by (simp add: msg0_def widgets_ok_def)
  show ?thesis
    using first_message(1,2) [OF m] handle_all_history [OF w, of page0]
    by (simp add: s page0_fields) (simp add: msg0_def)
qed

text \<open>
  The amended C8 on the loaded page.
\<close>

theorem handleSimulationData_stores_snapshot_witness:
  "widgets_ok msg0 \<and> current_data msg0 = Some snap0
   \<and> simulationData (snd (handleSimulationData msg0 page0)) = [snap0]
   \<and> widgets_ok msg_abc \<and> current_data msg_abc = Some snap_abc
   \<and> simulationData (handle_all [msg0, msg_abc] page0) = [snap0, snap_abc]"
proof -
  have w: "widgets_ok msg0 \<and> current_data msg0 = Some snap0"
    "widgets_ok msg_abc \<and> current_data msg_abc = Some snap_abc"
    by (simp_all add: msg0_def msg_abc_def widgets_ok_def)
  have ws: "\<forall>m \<in> set [msg0, msg_abc]. widgets_ok m \<and> current_data m \<noteq> None"
    using w by simp
  show ?thesis
    using w ws handleSimulationData_stores_snapshot [of msg0 snap0 page0 "[msg0, msg_abc]"]
    by (simp add: page0_fields)
qed

lemma resetCharts_loop_plots: "snd (resetCharts_loop cs p) = p"
proof (cases cs)
  case Nil
  then show ?thesis by simp
next
  case (Cons a rest)
  obtain chartId h where "a = (chartId, h)" by (cases a)
  with Cons show ?thesis by (cases h) simp
qed

lemma resetCharts_loop_fst:
  "fst (resetCharts_loop cs p) = (if cs = [] then Returned else Thrown TypeError)"
proof (cases cs)
  case Nil
  then show ?thesis by simp
next
  case (Cons a rest)
  obtain chartId h where "a = (chartId, h)" by (cases a)
  with Cons show ?thesis by (cases h) simp
qed

lemma resetCharts_eq:
  "resetCharts st = (if charts st = [] then Returned else Thrown TypeError, st)"
  using resetCharts_loop_plots [of "charts st" "plots st"]
    resetCharts_loop_fst [of "charts st" "plots st"]
  by (cases "resetCharts_loop (charts st) (plots st)") (simp add: resetCharts_def on_plots_def)

lemma resetSimulation_frame:
  "simulationData (snd (resetSimulation st)) = []"
  "pvVisualization (snd (resetSimulation st)) = pvVisualization st"
  "plots (snd (resetSimulation st)) = plots st"
  by (simp_all add: resetSimulation_def resetCharts_eq and_then_def updateProgress_def
      updateStatus_def updateSummaryStats_def)

lemma resetSimulation_throws:
  "charts st \<noteq> [] \<Longrightarrow> resetSimulation st = (Thrown TypeError, st\<lparr>simulationData := []\<rparr>)"
  by (simp add: resetSimulation_def resetCharts_eq and_then_def)

text \<open>
  C5, amended. \<open>resetSimulation\<close> empties the Snapshot history and leaves the scene as it
  is, for every prior state; the title and the axis titles of every chart are as before.
  (Nothing is stated about the series of the charts, the progress bar or the summary.)
\<close>

theorem resetSimulation_clears_history_only:
  "simulationData (snd (resetSimulation st)) = []
   \<and> pvVisualization (snd (resetSimulation st)) = pvVisualization st
   \<and> (\<forall>gd c. plots st gd = Some c \<longrightarrow>
         (\<exists>c1. plots (snd (resetSimulation st)) gd = Some c1 \<and> title c1 = title c
               \<and> xaxis_title c1 = xaxis_title c \<and> yaxis_title c1 = yaxis_title c))"
  by (simp add: resetSimulation_frame)

lemma handle_frame:
  "charts (snd (handleSimulationData data st)) = charts st"
proof -
  have a: "charts (snd (on_plots f s)) = charts s" for f s
    by (simp add: on_plots_frame)
  have b: "charts (snd (and_then (on_scene g s) (on_plots f))) = charts s" for f g s
    by (simp add: and_then_frame [where g = charts] a on_scene_frame)
  have c: "charts (snd (case current_data data of None \<Rightarrow> (Returned, s)
             | Some cd \<Rightarrow> (let st3 = s\<lparr>simulationData := simulationData s @ [cd]\<rparr> in
                 and_then (on_scene (updateFromData cd) st3) (\<lambda>st4. on_plots (updateCharts cd) st4))))
           = charts s" for s
    by (cases "current_data data") (simp_all add: Let_def b)
  have d: "charts (snd (case summary_stats data of None \<Rightarrow> (Returned, s)
             | Some stats \<Rightarrow> updateSummaryStats stats s)) = charts s" for s
    by (cases "summary_stats data") (simp_all add: updateSummaryStats_def split: option.split)
  have e: "charts (snd (updateProgress v s)) = charts s" for v s
    by (cases v) (simp_all add: updateProgress_def)
  show ?thesis
    unfolding handleSimulationData_def
    by (simp only: and_then_frame [where g = charts] c d e)
qed

lemma handle_progress_text:
  assumes "progress data = Num n"
  shows "progress_text (snd (handleSimulationData data st)) = Some n"
proof -
  have a: "progress_text (snd (on_plots f s)) = progress_text s" for f s
    by (simp add: on_plots_def split: prod.split)
  have a': "progress_text (snd (on_scene f s)) = progress_text s" for f s
    by (simp add: on_scene_def split: prod.split option.split)
  have b: "progress_text (snd (and_then (on_scene g s) (on_plots f))) = progress_text s" for f g s
    by (simp add: and_then_frame [where g = progress_text] a a')
  have c: "progress_text (snd (case current_data data of None \<Rightarrow> (Returned, s)
             | Some cd \<Rightarrow> (let st3 = s\<lparr>simulationData := simulationData s @ [cd]\<rparr> in
                 and_then (on_scene (updateFromData cd) st3) (\<lambda>st4. on_plots (updateCharts cd) st4))))
           = progress_text s" for s
    by (cases "current_data data") (simp_all add: Let_def b)
  have d: "progress_text (snd (case summary_stats data of None \<Rightarrow> (Returned, s)
             | Some stats \<Rightarrow> updateSummaryStats stats s)) = progress_text s" for s
    by (cases "summary_stats data") (simp_all add: updateSummaryStats_def split: option.split)
  have e: "progress_text (snd (updateProgress (progress data) st)) = Some n"
    by (simp add: assms updateProgress_def)
  show ?thesis
    unfolding handleSimulationData_def
    by (simp only: and_then_frame [where g = progress_text] c d e)
qed

lemma page1_fields:
  "charts page1 \<noteq> []"
  "progress_text page1 = Some (Fin 50)"
  "pvVisualization page1 = Some (snd (updateFromData (snap0\<lparr>time := Num (Fin 60)\<rparr>) scene0))"
  "plots page1 = snd (updateCharts (snap0\<lparr>time := Num (Fin 60)\<rparr>) (plots page0))"
proof -
  have m: "msg0 = \<lparr>progress = Num (Fin 50), summary_stats = None,
                   current_data = Some (snap0\<lparr>time := Num (Fin 60)\<rparr>)\<rparr>"
    by (simp add: msg0_def snap0_def)
  show "charts page1 \<noteq> []"
    by (simp add: page1_def handle_frame page0_fields)
  show "progress_text page1 = Some (Fin 50)"
    unfolding page1_def by (rule handle_progress_text) (simp add: msg0_def)
  show "pvVisualization page1 = Some (snd (updateFromData (snap0\<lparr>time := Num (Fin 60)\<rparr>) scene0))"
    unfolding page1_def by (rule first_message(3) [OF m])
  show "plots page1 = snd (updateCharts (snap0\<lparr>time := Num (Fin 60)\<rparr>) (plots page0))"
    unfolding page1_def by (rule first_message(4) [OF m])
qed

text \<open>
  C5, as the claim states it, fails: after one message on the loaded page, the reset throws
  in \<open>resetCharts\<close>; the sun stays at \<open>(0, 10, 0)\<close> where the initial scene has it at
  \<open>(0, 0, 0)\<close>, the Efficiency series keeps its point and the progress bar keeps 50.
\<close>

theorem resetSimulation_after_first_message:
  "fst (resetSimulation page1) = Thrown TypeError
   \<and> map_option sun_position (pvVisualization page0) = Some (Fin 0, Fin 0, Fin 0)
   \<and> map_option sun_position (pvVisualization (snd (resetSimulation page1)))
       = Some (Fin 0, Fin 10, Fin 0)
   \<and> series_y (plots page0) ''efficiency-chart'' 0 = []
   \<and> series_y (plots (snd (resetSimulation page1))) ''efficiency-chart'' 0 = [Num (Fin 50)]
   \<and> progress_text (snd (resetSimulation page1)) = Some (Fin 50)"
proof -
  have sun: "sun_position (snd (updateFromData (snap0\<lparr>time := Num (Fin 60)\<rparr>) scene0))
      = (Fin 0, Fin 10, Fin 0)"
    by (simp add: updateFromData_snap0_time)
  have sun0: "sun_position scene0 = (Fin 0, Fin 0, Fin 0)"
    by (simp add: scene0_value)
  show ?thesis
    by (simp add: resetSimulation_throws [OF page1_fields(1)] page1_fields(2,3,4) sun sun0
        series_first page0_fields page0_plots)
qed

lemma page0_efficiency_chart:
  "plots page0 ''efficiency-chart''
     = Some \<lparr>traces = [\<lparr>tr_name = ''Efficiency'', tr_dash = None, tr_x = [], tr_y = []\<rparr>],
             title = ''System Efficiency Over Time'', xaxis_title = ''Time (min)'',
             yaxis_title = ''Efficiency (%)''\<rparr>"
  by (simp add: page0_def loaded_def fresh_def initCharts_def add_chart_def newPlot_def Let_def
      empty_trace_def)

text \<open>
  The amended C5 on the loaded page and its Efficiency chart.
\<close>

theorem resetSimulation_clears_history_only_witness:
  "plots page0 ''efficiency-chart''
     = Some \<lparr>traces = [\<lparr>tr_name = ''Efficiency'', tr_dash = None, tr_x = [], tr_y = []\<rparr>],
             title = ''System Efficiency Over Time'', xaxis_title = ''Time (min)'',
             yaxis_title = ''Efficiency (%)''\<rparr>
   \<and> simulationData (snd (resetSimulation page0)) = []
   \<and> pvVisualization (snd (resetSimulation page0)) = Some scene0
   \<and> (\<exists>c1. plots (snd (resetSimulation page0)) ''efficiency-chart'' = Some c1
          \<and> title c1 = ''System Efficiency Over Time'' \<and> xaxis_title c1 = ''Time (min)''
          \<and> yaxis_title c1 = ''Efficiency (%)'')"
proof -
  note c = page0_efficiency_chart
  from resetSimulation_clears_history_only [of page0]
  have a: "simulationData (snd (resetSimulation page0)) = []"
    and b: "pvVisualization (snd (resetSimulation page0)) = pvVisualization page0"
    and d: "\<forall>gd c. plots page0 gd = Some c \<longrightarrow>
         (\<exists>c1. plots (snd (resetSimulation page0)) gd = Some c1 \<and> title c1 = title c
               \<and> xaxis_title c1 = xaxis_title c \<and> yaxis_title c1 = yaxis_title c)"
    by blast+
  from d [rule_format, OF c] show ?thesis
    using a b c by (simp add: page0_fields)
qed

end
